theory Spec2Isabelle
  imports Main "HOL-Library.Finite_Map"
begin

section \<open>JavaScript values\<close>

text \<open>
  The product parser works on whatever \<^verbatim>\<open>JSON.parse\<close> returns, so the data model is the
  JavaScript value. An object is the finite map of its own enumerable properties
  (enumeration order is not modelled). A number is kept as its canonical rendering
  (the result of \<^verbatim>\<open>String(n)\<close>, both zeros being \<^verbatim>\<open>0\<close>): the parser only tests numbers for
  truthiness and renders them. A string is a list of code units.
\<close>

datatype jsval =
    Undefined
  | Null
  | Bool bool
  | Num string
  | Str string
  | Arr "jsval list"
  | Obj "(string, jsval) fmap"

text \<open>Values that can be thrown. \<open>ApiError\<close> carries the optional \<^verbatim>\<open>status\<close> and \<^verbatim>\<open>code\<close>
  fields that the HTTP boundary inspects.\<close>

datatype error =
    TypeError
  | SyntaxError
  | Error string
  | ApiError "nat option" "string option"

text \<open>Truthiness (\<^verbatim>\<open>if (v)\<close>, \<^verbatim>\<open>!v\<close>, \<^verbatim>\<open>a || b\<close>).\<close>

fun truthy :: "jsval \<Rightarrow> bool" where
  "truthy Undefined = False"
| "truthy Null = False"
| "truthy (Bool b) = b"
| "truthy (Num n) = (n \<noteq> ''0'' \<and> n \<noteq> ''NaN'')"
| "truthy (Str s) = (s \<noteq> [])"
| "truthy (Arr xs) = True"
| "truthy (Obj m) = True"

text \<open>
  Property read \<^verbatim>\<open>v.k\<close> on a value that is neither \<^verbatim>\<open>null\<close> nor \<^verbatim>\<open>undefined\<close>, for the
  property names the parser reads: none of them is an array index, \<^verbatim>\<open>length\<close>, or defined
  on a built-in prototype, so the read finds an own property of an object or nothing.
\<close>

fun getProp :: "jsval \<Rightarrow> string \<Rightarrow> jsval" where
  "getProp (Obj m) k = (case fmlookup m k of Some v \<Rightarrow> v | None \<Rightarrow> Undefined)"
| "getProp v k = Undefined"

fun isArray :: "jsval \<Rightarrow> bool" where
  "isArray (Arr xs) = True"
| "isArray v = False"

subsection \<open>String coercion\<close>

fun joinWith :: "string \<Rightarrow> string list \<Rightarrow> string" where
  "joinWith sep [] = []"
| "joinWith sep [x] = x"
| "joinWith sep (x # y # zs) = x @ sep @ joinWith sep (y # zs)"

text \<open>
  \<^verbatim>\<open>String(v)\<close> asks an object for its \<^verbatim>\<open>toString\<close> method and then its \<^verbatim>\<open>valueOf\<close> method.
  A parsed object inherits \<^verbatim>\<open>Object.prototype.toString\<close> unless it has an own property of
  that name; an own property holds parsed data, which is never callable, and the
  inherited \<^verbatim>\<open>valueOf\<close> returns the object itself, so the coercion then throws a
  \<^verbatim>\<open>TypeError\<close>. An array is rendered by joining its elements with a comma, \<^verbatim>\<open>null\<close> and
  \<^verbatim>\<open>undefined\<close> elements giving the empty string.
\<close>

fun coercible :: "jsval \<Rightarrow> bool" where
  "coercible (Arr xs) = (\<forall>x \<in> set xs. coercible x)"
| "coercible (Obj m) = (''toString'' |\<notin>| fmdom m)"
| "coercible v = True"

fun stringOf :: "jsval \<Rightarrow> string" where
  "stringOf Undefined = ''undefined''"
| "stringOf Null = ''null''"
| "stringOf (Bool b) = (if b then ''true'' else ''false'')"
| "stringOf (Num n) = n"
| "stringOf (Str s) = s"
| "stringOf (Arr xs) =
     joinWith '','' (map (\<lambda>x. if x = Undefined \<or> x = Null then [] else stringOf x) xs)"
| "stringOf (Obj m) = ''[object Object]''"

definition ToString :: "jsval \<Rightarrow> error + string" where
  "ToString v = (if coercible v then Inr (stringOf v) else Inl TypeError)"

text \<open>\<^verbatim>\<open>xs.join(sep)\<close> on an array.\<close>

definition arrayJoin :: "string \<Rightarrow> jsval list \<Rightarrow> error + string" where
  "arrayJoin sep xs =
     (if \<forall>x \<in> set xs. coercible x
      then Inr (joinWith sep (map (\<lambda>x. if x = Undefined \<or> x = Null then [] else stringOf x) xs))
      else Inl TypeError)"

subsection \<open>Objects under construction\<close>

text \<open>
  \<^verbatim>\<open>flattenNestedData\<close> builds a fresh object and stores into it. Stores go through the
  ordinary \<^verbatim>\<open>[[Set]]\<close> operation, where the key \<^verbatim>\<open>__proto__\<close> reaches the accessor inherited
  from \<^verbatim>\<open>Object.prototype\<close> and replaces the prototype instead of creating a property.
  The fresh object therefore carries its prototype.
\<close>

datatype prototype = ObjectPrototype | NullPrototype | ValuePrototype jsval

record object =
  proto :: prototype
  props :: "(string, jsval) fmap"

definition emptyObject :: object where
  "emptyObject = \<lparr>proto = ObjectPrototype, props = fmempty\<rparr>"

text \<open>Does a lookup of \<^verbatim>\<open>__proto__\<close> that starts at this prototype end at the accessor?\<close>

fun reachesAccessor :: "prototype \<Rightarrow> bool" where
  "reachesAccessor ObjectPrototype = True"
| "reachesAccessor NullPrototype = False"
| "reachesAccessor (ValuePrototype (Obj m)) = (''__proto__'' |\<notin>| fmdom m)"
| "reachesAccessor (ValuePrototype v) = True"

text \<open>The accessor's setter: an object or \<^verbatim>\<open>null\<close> becomes the prototype, anything else is
  ignored.\<close>

fun setPrototype :: "object \<Rightarrow> jsval \<Rightarrow> object" where
  "setPrototype ob Null = ob\<lparr>proto := NullPrototype\<rparr>"
| "setPrototype ob (Obj m) = ob\<lparr>proto := ValuePrototype (Obj m)\<rparr>"
| "setPrototype ob (Arr xs) = ob\<lparr>proto := ValuePrototype (Arr xs)\<rparr>"
| "setPrototype ob v = ob"

definition setProperty :: "object \<Rightarrow> string \<Rightarrow> jsval \<Rightarrow> object" where
  "setProperty ob k v =
     (if k = ''__proto__'' \<and> k |\<notin>| fmdom (props ob) \<and> reachesAccessor (proto ob)
      then setPrototype ob v
      else ob\<lparr>props := fmupd k v (props ob)\<rparr>)"

text \<open>Decimal rendering of an array index.\<close>

fun decimal :: "nat \<Rightarrow> string" where
  "decimal n =
     (if n < 10 then [char_of (48 + n)]
      else decimal (n div 10) @ [char_of (48 + n mod 10)])"

declare decimal.simps [simp del]

definition indexed :: "jsval list \<Rightarrow> (string, jsval) fmap" where
  "indexed xs = fmap_of_list (zip (map decimal [0..<length xs]) xs)"

text \<open>The own enumerable properties that \<^verbatim>\<open>Object.assign\<close> copies from a source: those of
  an object, the elements of an array, the code units of a string, nothing otherwise.\<close>

fun ownEnumerable :: "jsval \<Rightarrow> (string, jsval) fmap" where
  "ownEnumerable (Obj m) = m"
| "ownEnumerable (Arr xs) = indexed xs"
| "ownEnumerable (Str s) = indexed (map (\<lambda>c. Str [c]) s)"
| "ownEnumerable v = fmempty"

text \<open>\<^verbatim>\<open>Object.assign(target, source)\<close>: every own enumerable property of the source is
  stored into the target. Only the store of \<^verbatim>\<open>__proto__\<close> depends on the target's state.\<close>

definition objectAssign :: "object \<Rightarrow> jsval \<Rightarrow> object" where
  "objectAssign ob src =
     (let s = ownEnumerable src;
          ob' = ob\<lparr>props := props ob ++\<^sub>f fmdrop ''__proto__'' s\<rparr>
      in case fmlookup s ''__proto__'' of
           None \<Rightarrow> ob'
         | Some v \<Rightarrow> setProperty ob' ''__proto__'' v)"

section \<open>The shape normalizer\<close>

text \<open>What \<^verbatim>\<open>flattenNestedData\<close> returns: the argument itself (\<^verbatim>\<open>return data\<close>) or the object
  it built (\<^verbatim>\<open>return flattened\<close>).\<close>

datatype flat = Given jsval | Built object

text \<open>The test of line 7: a truthy \<^verbatim>\<open>name\<close> or \<^verbatim>\<open>company\<close>, or neither of the two group
  headers truthy.\<close>

definition alreadyFlat :: "jsval \<Rightarrow> bool" where
  "alreadyFlat data =
     (truthy (getProp data ''name'') \<or> truthy (getProp data ''company'') \<or>
      (\<not> truthy (getProp data ''Basic Information'') \<and>
       \<not> truthy (getProp data ''Dates & Batch'')))"

text \<open>Lines 14-22: the two merged groups.\<close>

definition mergeGroup :: "string \<Rightarrow> jsval \<Rightarrow> object \<Rightarrow> object" where
  "mergeGroup g data flattened =
     (if truthy (getProp data g) then objectAssign flattened (getProp data g) else flattened)"

text \<open>Lines 24-33.\<close>

definition liftIngredients :: "jsval \<Rightarrow> object \<Rightarrow> object" where
  "liftIngredients data flattened =
     (let ingredientsNutrition = getProp data ''Ingredients & Nutrition'' in
      if truthy ingredientsNutrition then
        (let f1 = (if truthy (getProp ingredientsNutrition ''ingredients'')
                   then setProperty flattened ''ingredients''
                          (getProp ingredientsNutrition ''ingredients'')
                   else flattened)
         in if truthy (getProp ingredientsNutrition ''nutritionalInfo'')
            then setProperty f1 ''nutritionalInfo''
                   (getProp ingredientsNutrition ''nutritionalInfo'')
            else f1)
      else flattened)"

text \<open>Lines 41-46: an array is joined with a comma and a space, anything else goes through
  \<^verbatim>\<open>String\<close>.\<close>

definition licenseString :: "jsval \<Rightarrow> error + string" where
  "licenseString v = (case v of Arr xs \<Rightarrow> arrayJoin '', '' xs | _ \<Rightarrow> ToString v)"

text \<open>Lines 35-50.\<close>

definition liftManufacturing :: "jsval \<Rightarrow> object \<Rightarrow> error + object" where
  "liftManufacturing data flattened =
     (let manufacturing = getProp data ''Manufacturing & Regulatory'' in
      if truthy manufacturing then
        (let f1 = (if truthy (getProp manufacturing ''manufacturingAddresses'')
                   then setProperty flattened ''manufacturingAddresses''
                          (getProp manufacturing ''manufacturingAddresses'')
                   else flattened)
         in case (if truthy (getProp manufacturing ''fssaiLicense'')
                  then (case licenseString (getProp manufacturing ''fssaiLicense'') of
                          Inl e \<Rightarrow> Inl e
                        | Inr s \<Rightarrow> Inr (setProperty f1 ''fssaiLicense'' (Str s)))
                  else Inr f1) of
              Inl e \<Rightarrow> Inl e
            | Inr f2 \<Rightarrow>
                (if truthy (getProp manufacturing ''vegetarian'')
                 then (case ToString (getProp manufacturing ''vegetarian'') of
                         Inl e \<Rightarrow> Inl e
                       | Inr s \<Rightarrow> Inr (setProperty f2 ''vegetarian'' (Str s)))
                 else Inr f2))
      else Inr flattened)"

text \<open>Lines 52-56.\<close>

definition liftContact :: "jsval \<Rightarrow> object \<Rightarrow> object" where
  "liftContact data flattened =
     (let contactInfo = getProp data ''Contact Information'' in
      if truthy contactInfo \<and> truthy (getProp contactInfo ''consumerContact'')
      then setProperty flattened ''consumerContact'' (getProp contactInfo ''consumerContact'')
      else flattened)"

text \<open>Lines 58-62.\<close>

definition liftOther :: "jsval \<Rightarrow> object \<Rightarrow> object" where
  "liftOther data flattened =
     (let otherDetails = getProp data ''Other Details'' in
      if truthy otherDetails \<and> truthy (getProp otherDetails ''otherDetails'')
      then setProperty flattened ''otherDetails'' (getProp otherDetails ''otherDetails'')
      else flattened)"

text \<open>
  \<^verbatim>\<open>flattenNestedData\<close>, lines 5-65. The argument is whatever was parsed: reading
  \<^verbatim>\<open>data.name\<close> throws on \<^verbatim>\<open>null\<close>. Every later read is guarded by a truthiness test.
\<close>

definition flattenNestedData :: "jsval \<Rightarrow> error + flat" where
  "flattenNestedData data =
     (if data = Null \<or> data = Undefined then Inl TypeError
      else if alreadyFlat data then Inr (Given data)
      else
        (let f1 = mergeGroup ''Basic Information'' data emptyObject;
             f2 = mergeGroup ''Dates & Batch'' data f1;
             f3 = liftIngredients data f2
         in case liftManufacturing data f3 of
              Inl e \<Rightarrow> Inl e
            | Inr f4 \<Rightarrow> Inr (Built (liftOther data (liftContact data f4)))))"


subsection \<open>The flattening rule as the specification words it\<close>

text \<open>
  The specification describes the flat result as a union: the two merged groups
  contribute all their keys, the other four contribute the fields they lift by name, a
  falsy value counting as absent. The definitions below write that description down, one
  finite map per group, to be compared with what \<^verbatim>\<open>flattenNestedData\<close> builds.
\<close>

definition groupKeys :: "string list" where
  "groupKeys = [''Basic Information'', ''Dates & Batch'', ''Ingredients & Nutrition'',
                ''Manufacturing & Regulatory'', ''Contact Information'', ''Other Details'']"

text \<open>The fields lifted by name, each with the group it is lifted from.\<close>

definition liftedByName :: "(string \<times> string) list" where
  "liftedByName =
     [(''Ingredients & Nutrition'', ''ingredients''),
      (''Ingredients & Nutrition'', ''nutritionalInfo''),
      (''Manufacturing & Regulatory'', ''manufacturingAddresses''),
      (''Manufacturing & Regulatory'', ''fssaiLicense''),
      (''Manufacturing & Regulatory'', ''vegetarian''),
      (''Contact Information'', ''consumerContact''),
      (''Other Details'', ''otherDetails'')]"

definition merged :: "jsval \<Rightarrow> (string, jsval) fmap" where
  "merged g = (if truthy g then ownEnumerable g else fmempty)"

definition pick :: "string \<Rightarrow> jsval \<Rightarrow> (string, jsval) fmap" where
  "pick k g = (if truthy (getProp g k) then fmupd k (getProp g k) fmempty else fmempty)"

definition elementString :: "jsval \<Rightarrow> string" where
  "elementString x = (if x = Undefined \<or> x = Null then [] else stringOf x)"

definition pickLicense :: "jsval \<Rightarrow> (string, jsval) fmap" where
  "pickLicense g =
     (let v = getProp g ''fssaiLicense'' in
      if truthy v
      then fmupd ''fssaiLicense''
             (Str (case v of Arr xs \<Rightarrow> joinWith '', '' (map elementString xs) | _ \<Rightarrow> stringOf v))
             fmempty
      else fmempty)"

definition pickVegetarian :: "jsval \<Rightarrow> (string, jsval) fmap" where
  "pickVegetarian g =
     (let v = getProp g ''vegetarian'' in
      if truthy v then fmupd ''vegetarian'' (Str (stringOf v)) fmempty else fmempty)"

definition contribution :: "string \<Rightarrow> jsval \<Rightarrow> (string, jsval) fmap" where
  "contribution G data =
     (let g = getProp data G in
      if G = ''Basic Information'' \<or> G = ''Dates & Batch'' then merged g
      else if G = ''Ingredients & Nutrition''
        then pick ''ingredients'' g ++\<^sub>f pick ''nutritionalInfo'' g
      else if G = ''Manufacturing & Regulatory''
        then pick ''manufacturingAddresses'' g ++\<^sub>f pickLicense g ++\<^sub>f pickVegetarian g
      else if G = ''Contact Information'' then pick ''consumerContact'' g
      else if G = ''Other Details'' then pick ''otherDetails'' g
      else fmempty)"

text \<open>The union of the contributions of a list of groups, a later group winning where two
  groups supply the same key.\<close>

definition unionOf :: "string list \<Rightarrow> jsval \<Rightarrow> (string, jsval) fmap" where
  "unionOf Gs data = foldl (\<lambda>acc G. acc ++\<^sub>f contribution G data) fmempty Gs"

text \<open>All six group keys hold something.\<close>

definition populated :: "jsval \<Rightarrow> bool" where
  "populated data = (\<forall>G \<in> set groupKeys. truthy (getProp data G))"

text \<open>The two string coercions of lines 41-49 go through: a truthy \<^verbatim>\<open>fssaiLicense\<close> and a
  truthy \<^verbatim>\<open>vegetarian\<close> of the manufacturing group can be rendered.\<close>

definition manufacturingCoercible :: "jsval \<Rightarrow> bool" where
  "manufacturingCoercible data =
     (let manufacturing = getProp data ''Manufacturing & Regulatory'' in
      (truthy (getProp manufacturing ''fssaiLicense'') \<longrightarrow>
         coercible (getProp manufacturing ''fssaiLicense'')) \<and>
      (truthy (getProp manufacturing ''vegetarian'') \<longrightarrow>
         coercible (getProp manufacturing ''vegetarian'')))"

text \<open>Neither of the two merged groups has an own \<^verbatim>\<open>__proto__\<close> key (which \<^verbatim>\<open>JSON.parse\<close>
  creates as an ordinary property and \<^verbatim>\<open>Object.assign\<close> stores through the prototype
  accessor of the target).\<close>

definition noPrototypeKey :: "jsval \<Rightarrow> bool" where
  "noPrototypeKey data =
     (''__proto__'' |\<notin>| fmdom (merged (getProp data ''Basic Information'')) \<and>
      ''__proto__'' |\<notin>| fmdom (merged (getProp data ''Dates & Batch'')))"

section \<open>The record validator\<close>

text \<open>
  The validator receives what the normalizer returned and reads properties from it.
  A read on the built object looks at its own properties and then at a prototype that a
  \<^verbatim>\<open>__proto__\<close> key may have installed; a read on the argument itself is \<open>getProp\<close>.
  \<open>flatHas\<close> is the \<^verbatim>\<open>in\<close> operator for the same names.
\<close>

fun flatGet :: "flat \<Rightarrow> string \<Rightarrow> jsval" where
  "flatGet (Given data) k = getProp data k"
| "flatGet (Built ob) k =
     (case fmlookup (props ob) k of
        Some v \<Rightarrow> v
      | None \<Rightarrow> (case proto ob of ValuePrototype p \<Rightarrow> getProp p k | _ \<Rightarrow> Undefined))"

fun flatHas :: "flat \<Rightarrow> string \<Rightarrow> bool" where
  "flatHas (Given (Obj m)) k = (k |\<in>| fmdom m)"
| "flatHas (Given data) k = False"
| "flatHas (Built ob) k =
     (k |\<in>| fmdom (props ob) \<or>
      (case proto ob of ValuePrototype (Obj m) \<Rightarrow> k |\<in>| fmdom m | _ \<Rightarrow> False))"

text \<open>The schema library accepts an input as an object when it is neither a primitive,
  \<^verbatim>\<open>null\<close> nor an array.\<close>

fun isObject :: "flat \<Rightarrow> bool" where
  "isObject (Given (Obj m)) = True"
| "isObject (Given data) = False"
| "isObject (Built ob) = True"

fun isString :: "jsval \<Rightarrow> bool" where
  "isString (Str s) = True"
| "isString v = False"

text \<open>
  The schema of lines 69-112. Every field is one of four shapes, each made nullish and
  followed by the transform \<^verbatim>\<open>val ?? undefined\<close>: a string, an array of strings, a record of
  strings, or an object of nullish strings with the listed keys. A parser returns \<open>None\<close>
  when the library reports an issue.
\<close>

datatype fieldSchema = NullishString | NullishArray | NullishRecord | NullishObject "string list"

fun nullishString :: "jsval \<Rightarrow> jsval option" where
  "nullishString Undefined = Some Undefined"
| "nullishString Null = Some Undefined"
| "nullishString (Str s) = Some (Str s)"
| "nullishString v = None"

fun nullishArray :: "jsval \<Rightarrow> jsval option" where
  "nullishArray Undefined = Some Undefined"
| "nullishArray Null = Some Undefined"
| "nullishArray (Arr xs) = (if \<forall>x \<in> set xs. isString x then Some (Arr xs) else None)"
| "nullishArray v = None"

text \<open>A record keeps every key but \<^verbatim>\<open>__proto__\<close>, which the library passes over.\<close>

fun nullishRecord :: "jsval \<Rightarrow> jsval option" where
  "nullishRecord Undefined = Some Undefined"
| "nullishRecord Null = Some Undefined"
| "nullishRecord (Obj m) =
     (if fmpred (\<lambda>k v. isString v) (fmdrop ''__proto__'' m)
      then Some (Obj (fmdrop ''__proto__'' m)) else None)"
| "nullishRecord v = None"

text \<open>
  An object schema strips unknown keys: the output is built from the keys of the schema
  alone, and a key is set when its parsed value is defined or the key is in the input.
\<close>

definition keep :: "(string \<Rightarrow> bool) \<Rightarrow> string list \<Rightarrow> jsval list \<Rightarrow> jsval" where
  "keep present ks vals =
     Obj (fmap_of_list (filter (\<lambda>(k, v). v \<noteq> Undefined \<or> present k) (zip ks vals)))"

fun nullishObject :: "string list \<Rightarrow> jsval \<Rightarrow> jsval option" where
  "nullishObject ks Undefined = Some Undefined"
| "nullishObject ks Null = Some Undefined"
| "nullishObject ks (Obj m) =
     (case those (map (\<lambda>k. nullishString (getProp (Obj m) k)) ks) of
        None \<Rightarrow> None
      | Some vals \<Rightarrow> Some (keep (\<lambda>k. k |\<in>| fmdom m) ks vals))"
| "nullishObject ks v = None"

fun parseField :: "fieldSchema \<Rightarrow> jsval \<Rightarrow> jsval option" where
  "parseField NullishString v = nullishString v"
| "parseField NullishArray v = nullishArray v"
| "parseField NullishRecord v = nullishRecord v"
| "parseField (NullishObject ks) v = nullishObject ks v"

definition ProductSchema :: "(string \<times> fieldSchema) list" where
  "ProductSchema =
     [(''name'', NullishString),
      (''company'', NullishString),
      (''manufacturer'', NullishString),
      (''ingredients'', NullishArray),
      (''expiryDate'', NullishString),
      (''bestBefore'', NullishString),
      (''mrp'', NullishString),
      (''price'', NullishString),
      (''netWeight'', NullishString),
      (''batchNumber'', NullishString),
      (''manufacturingDate'', NullishString),
      (''barcode'', NullishString),
      (''nutritionalInfo'',
         NullishObject [''energy'', ''protein'', ''totalCarbohydrate'', ''sugars'', ''totalFat'',
                        ''saturatedFat'', ''transFat'', ''sodium'', ''servingSize'']),
      (''manufacturingAddresses'', NullishArray),
      (''fssaiLicense'', NullishString),
      (''consumerContact'', NullishObject [''phone'', ''email'', ''address'', ''website'']),
      (''vegetarian'', NullishString),
      (''trademark'', NullishString),
      (''otherDetails'', NullishRecord)]"

text \<open>The canonical field names are the keys of the schema.\<close>

definition canonicalFields :: "string list" where
  "canonicalFields = map fst ProductSchema"

text \<open>\<^verbatim>\<open>ProductSchema.safeParse\<close>: \<open>Some\<close> the validated data, \<open>None\<close> when validation fails.\<close>

definition safeParse :: "flat \<Rightarrow> jsval option" where
  "safeParse input =
     (if \<not> isObject input then None
      else case those (map (\<lambda>(k, schema). parseField schema (flatGet input k)) ProductSchema) of
             None \<Rightarrow> None
           | Some vals \<Rightarrow> Some (keep (flatHas input) canonicalFields vals))"

text \<open>\<^verbatim>\<open>v ?? undefined\<close>.\<close>

definition orUndefined :: "jsval \<Rightarrow> jsval" where
  "orUndefined v = (if v = Null \<or> v = Undefined then Undefined else v)"

text \<open>
  The object literal of lines 234-254, returned when validation fails. The casts of the
  source are erased at run time, so each value is what the read gives; two fields are
  written without \<^verbatim>\<open>?? undefined\<close>.
\<close>

definition bestEffort :: "flat \<Rightarrow> jsval" where
  "bestEffort flat =
     Obj (fmap_of_list
       [(''name'', orUndefined (flatGet flat ''name'')),
        (''company'', orUndefined (flatGet flat ''company'')),
        (''manufacturer'', orUndefined (flatGet flat ''manufacturer'')),
        (''ingredients'', orUndefined (flatGet flat ''ingredients'')),
        (''expiryDate'', orUndefined (flatGet flat ''expiryDate'')),
        (''bestBefore'', orUndefined (flatGet flat ''bestBefore'')),
        (''mrp'', orUndefined (flatGet flat ''mrp'')),
        (''price'', orUndefined (flatGet flat ''price'')),
        (''netWeight'', orUndefined (flatGet flat ''netWeight'')),
        (''batchNumber'', orUndefined (flatGet flat ''batchNumber'')),
        (''manufacturingDate'', orUndefined (flatGet flat ''manufacturingDate'')),
        (''barcode'', orUndefined (flatGet flat ''barcode'')),
        (''nutritionalInfo'', flatGet flat ''nutritionalInfo''),
        (''manufacturingAddresses'', orUndefined (flatGet flat ''manufacturingAddresses'')),
        (''fssaiLicense'', orUndefined (flatGet flat ''fssaiLicense'')),
        (''consumerContact'', flatGet flat ''consumerContact''),
        (''vegetarian'', orUndefined (flatGet flat ''vegetarian'')),
        (''trademark'', orUndefined (flatGet flat ''trademark'')),
        (''otherDetails'', orUndefined (flatGet flat ''otherDetails''))])"

text \<open>The fields that the literal writes with \<^verbatim>\<open>?? undefined\<close>, and the two it copies as
  read.\<close>

definition coalescedFields :: "string list" where
  "coalescedFields =
     [''name'', ''company'', ''manufacturer'', ''ingredients'', ''expiryDate'', ''bestBefore'',
      ''mrp'', ''price'', ''netWeight'', ''batchNumber'', ''manufacturingDate'', ''barcode'',
      ''manufacturingAddresses'', ''fssaiLicense'', ''vegetarian'', ''trademark'',
      ''otherDetails'']"

definition copiedFields :: "string list" where
  "copiedFields = [''nutritionalInfo'', ''consumerContact'']"

text \<open>Lines 222-255: strict validation, and the field-by-field literal when it fails.\<close>

definition validateRecord :: "flat \<Rightarrow> jsval" where
  "validateRecord flattened =
     (case safeParse flattened of Some data \<Rightarrow> data | None \<Rightarrow> bestEffort flattened)"

text \<open>The object literal of lines 260-280.\<close>

definition emptyRecord :: jsval where
  "emptyRecord =
     Obj (fmap_of_list
       [(''name'', Undefined), (''company'', Undefined), (''manufacturer'', Undefined),
        (''ingredients'', Undefined), (''expiryDate'', Undefined), (''bestBefore'', Undefined),
        (''mrp'', Undefined), (''price'', Undefined), (''netWeight'', Undefined),
        (''batchNumber'', Undefined), (''manufacturingDate'', Undefined),
        (''barcode'', Undefined), (''nutritionalInfo'', Undefined),
        (''manufacturingAddresses'', Undefined), (''fssaiLicense'', Undefined),
        (''consumerContact'', Undefined), (''vegetarian'', Undefined),
        (''trademark'', Undefined), (''otherDetails'', Undefined)])"

section \<open>The parser entry points\<close>

text \<open>
  The hosted completion service and \<^verbatim>\<open>JSON.parse\<close> are the environment of the parser and are
  taken as parameters: a gateway maps the credential and the request to a completion or
  to the error it throws, a decoder maps a text to the parsed value or to the error it
  throws. A request is identified by what varies between calls (the label text, or the
  image with its MIME type); the prompt, the model name and the sampling settings are
  constants of the source. Each entry point returns the list of requests it sent to the
  gateway together with its outcome.
\<close>

datatype request = TextRequest string | ImageRequest string string

record chatMessage =
  content :: "string option"

record choice =
  message :: "chatMessage option"

record completion =
  choices :: "choice list"

type_synonym gateway = "string \<Rightarrow> request \<Rightarrow> error + completion"

type_synonym decoder = "string \<Rightarrow> error + jsval"

text \<open>\<^verbatim>\<open>response.choices[0]?.message?.content\<close>.\<close>

definition firstContent :: "completion \<Rightarrow> string option" where
  "firstContent response =
     (case choices response of
        [] \<Rightarrow> None
      | c # cs \<Rightarrow> (case message c of None \<Rightarrow> None | Some msg \<Rightarrow> content msg))"

text \<open>Lines 208-255 (and 345-391): what the body of the \<^verbatim>\<open>try\<close> block does with the
  completion. \<open>Inl\<close> is an exception thrown inside the block.\<close>

definition readCompletion :: "decoder \<Rightarrow> completion \<Rightarrow> error + jsval" where
  "readCompletion decode response =
     (case firstContent response of
        None \<Rightarrow> Inl (Error ''No response from OpenRouter'')
      | Some text \<Rightarrow>
          if text = [] then Inl (Error ''No response from OpenRouter'')
          else (case decode text of
                  Inl e \<Rightarrow> Inl e
                | Inr parsed \<Rightarrow>
                    (case flattenNestedData parsed of
                       Inl e \<Rightarrow> Inl e
                     | Inr flattened \<Rightarrow> Inr (validateRecord flattened))))"

text \<open>The whole \<^verbatim>\<open>try\<close> block: the gateway call, then the reading of its completion.\<close>

definition attempt :: "gateway \<Rightarrow> decoder \<Rightarrow> string \<Rightarrow> request \<Rightarrow> error + jsval" where
  "attempt gateway decode key req =
     (case gateway key req of Inl e \<Rightarrow> Inl e | Inr response \<Rightarrow> readCompletion decode response)"

text \<open>\<^verbatim>\<open>parseProductText\<close>, lines 120-282. The credential is optional; \<^verbatim>\<open>!apiKey\<close> holds for a
  missing and for an empty one. The \<^verbatim>\<open>catch\<close> block turns every exception of the \<^verbatim>\<open>try\<close>
  block into the empty record. Between the check and the \<^verbatim>\<open>try\<close> block the source builds the
  client object from the credential; that construction sends nothing and, on a server with
  a credential, does not throw, so it has no counterpart here.\<close>

definition parseProductText ::
  "gateway \<Rightarrow> decoder \<Rightarrow> string \<Rightarrow> string option \<Rightarrow> request list \<times> (error + jsval)" where
  "parseProductText gateway decode ocrText apiKey =
     (case apiKey of
        None \<Rightarrow> ([], Inl (Error ''OpenRouter API key is required''))
      | Some key \<Rightarrow>
          if key = [] then ([], Inl (Error ''OpenRouter API key is required''))
          else ([TextRequest ocrText],
                case attempt gateway decode key (TextRequest ocrText) of
                  Inl e \<Rightarrow> Inr emptyRecord
                | Inr r \<Rightarrow> Inr r))"

text \<open>\<^verbatim>\<open>parseProductImage\<close>, lines 288-416, with the same structure.\<close>

definition parseProductImage ::
  "gateway \<Rightarrow> decoder \<Rightarrow> string \<Rightarrow> string \<Rightarrow> string option \<Rightarrow>
   request list \<times> (error + jsval)" where
  "parseProductImage gateway decode imageBase64 mimeType apiKey =
     (case apiKey of
        None \<Rightarrow> ([], Inl (Error ''OpenRouter API key is required''))
      | Some key \<Rightarrow>
          if key = [] then ([], Inl (Error ''OpenRouter API key is required''))
          else ([ImageRequest mimeType imageBase64],
                case attempt gateway decode key (ImageRequest mimeType imageBase64) of
                  Inl e \<Rightarrow> Inr emptyRecord
                | Inr r \<Rightarrow> Inr r))"

text \<open>Two environments used in the examples: a gateway that throws, and a gateway that
  answers with one message; a decoder that knows one text.\<close>

definition failingGateway :: "error \<Rightarrow> gateway" where
  "failingGateway e key req = Inl e"

definition answeringGateway :: "string \<Rightarrow> gateway" where
  "answeringGateway text key req =
     Inr \<lparr>choices = [\<lparr>message = Some \<lparr>content = Some text\<rparr>\<rparr>]\<rparr>"

definition decoderOf :: "string \<Rightarrow> jsval \<Rightarrow> decoder" where
  "decoderOf known v text = (if text = known then Inr v else Inl SyntaxError)"

text \<open>
  Both entry points are declared \<^verbatim>\<open>export async function\<close>. A call of an \<^verbatim>\<open>async\<close> function
  never throws: it returns a promise, and a \<^verbatim>\<open>throw\<close> in the body, also one before the first
  \<^verbatim>\<open>await\<close>, rejects that promise. \<open>asyncCall\<close> turns the outcome of the body, as
  \<open>parseProductText\<close> and \<open>parseProductImage\<close> compute it, into what the caller of the
  function observes: \<open>Thrown\<close> would be a synchronous exception, \<open>Returned\<close> is the promise
  with the way it settles.
\<close>

datatype 'a promise = Fulfilled 'a | Rejected error

datatype 'a callOutcome = Thrown error | Returned 'a

definition asyncCall :: "error + 'a \<Rightarrow> 'a promise callOutcome" where
  "asyncCall body = Returned (case body of Inl e \<Rightarrow> Rejected e | Inr v \<Rightarrow> Fulfilled v)"

section \<open>The scan endpoint\<close>

text \<open>
  The text strategy of the \<^verbatim>\<open>POST\<close> handler, lines 26-109 of the route. The call of
  \<^verbatim>\<open>parseProductText\<close> is a parameter of \<open>scanText\<close>, so that the \<^verbatim>\<open>catch\<close> block is written
  for every error the call may throw; \<open>scanEndpoint\<close> puts the parser of the repository
  there. \<open>None\<close> stands for falling through to the image strategy.
  The credential comes from the environment; \<^verbatim>\<open>!geminiApiKey\<close> holds for a missing and for an
  empty one.
\<close>

fun statusOf :: "error \<Rightarrow> nat option" where
  "statusOf (ApiError s c) = s"
| "statusOf e = None"

fun codeOf :: "error \<Rightarrow> string option" where
  "codeOf (ApiError s c) = c"
| "codeOf e = None"

record scanResponse =
  success :: bool
  responseData :: jsval
  advisory :: "string option"
  errorCode :: "string option"

definition isWhiteSpace :: "char \<Rightarrow> bool" where
  "isWhiteSpace c =
     (c \<in> set [CHR 0x09, CHR 0x0A, CHR 0x0B, CHR 0x0C, CHR 0x0D, CHR 0x20, CHR 0xA0])"

definition trim :: "string \<Rightarrow> string" where
  "trim s = rev (dropWhile isWhiteSpace (rev (dropWhile isWhiteSpace s)))"

text \<open>The \<^verbatim>\<open>data\<close> object of every fallback response; \<^verbatim>\<open>substring(0, 1000)\<close> keeps the first
  thousand code units.\<close>

definition rawTextData :: "string \<Rightarrow> jsval" where
  "rawTextData ocrText =
     Obj (fmap_of_list
       [(''name'', Undefined), (''company'', Undefined), (''rawText'', Str (take 1000 ocrText))])"

definition fallback :: "string \<Rightarrow> string \<Rightarrow> string option \<Rightarrow> scanResponse" where
  "fallback ocrText msg c =
     \<lparr>success = True, responseData = rawTextData ocrText, advisory = Some msg, errorCode = c\<rparr>"

definition scanText ::
  "(string \<Rightarrow> string \<Rightarrow> error + jsval) \<Rightarrow> string option \<Rightarrow> string option \<Rightarrow>
   scanResponse option" where
  "scanText parseText ocrText geminiApiKey =
     (case ocrText of
        None \<Rightarrow> None
      | Some text \<Rightarrow>
          if text \<noteq> [] \<and> length (trim text) > 0 then
            (case (case geminiApiKey of None \<Rightarrow> None | Some k \<Rightarrow> if k = [] then None else Some k) of
               None \<Rightarrow>
                 Some (fallback text
                   ''Gemini API key not configured. Add GEMINI_API_KEY for AI parsing.'' None)
             | Some key \<Rightarrow>
                 (case parseText text key of
                    Inr productData \<Rightarrow>
                      Some \<lparr>success = True, responseData = productData, advisory = None,
                            errorCode = None\<rparr>
                  | Inl apiError \<Rightarrow>
                      if statusOf apiError = Some 404 then
                        Some (fallback text
                          ''Gemini API model not found. The model name may be incorrect. Showing raw OCR text. Please check the model configuration.''
                          (Some ''model_not_found''))
                      else if statusOf apiError = Some 401 \<or> statusOf apiError = Some 403 then
                        Some (fallback text
                          ''Gemini API authentication failed. The API key may be invalid or expired. Showing raw OCR text. Please verify your API key at https://makersuite.google.com/app/apikey''
                          (Some ''auth_failed''))
                      else if statusOf apiError = Some 429
                              \<or> codeOf apiError = Some ''insufficient_quota''
                              \<or> codeOf apiError = Some ''RESOURCE_EXHAUSTED'' then
                        Some (fallback text
                          ''Gemini API quota exceeded. Showing raw OCR text. Please check your billing or try again later.''
                          (Some ''quota_exceeded''))
                      else
                        Some (fallback text ''AI parsing failed. Showing raw OCR text.''
                          (Some ''parsing_failed''))))
          else None)"

text \<open>The handler as the route composes it, line 43: the parser call is
  \<^verbatim>\<open>await parseProductText(ocrText, geminiApiKey)\<close>, whose rejection is what the \<^verbatim>\<open>catch\<close> block
  receives.\<close>

definition scanEndpoint ::
  "gateway \<Rightarrow> decoder \<Rightarrow> string option \<Rightarrow> string option \<Rightarrow> scanResponse option" where
  "scanEndpoint gateway decode ocrText geminiApiKey =
     scanText (\<lambda>text key. snd (parseProductText gateway decode text (Some key)))
       ocrText geminiApiKey"

section \<open>Auxiliary facts about the shape normalizer\<close>

lemma setProperty_plain:
  "k \<noteq> ''__proto__'' \<Longrightarrow> setProperty ob k v = ob\<lparr>props := fmupd k v (props ob)\<rparr>"
  by (simp add: setProperty_def)

lemma getProp_falsy: "\<not> truthy g \<Longrightarrow> getProp g k = Undefined"
  by (cases g) auto

lemma elementString_fun:
  "(\<lambda>x. if x = Undefined \<or> x = Null then [] else stringOf x) = elementString"
  by (rule ext) (simp add: elementString_def)

lemma getProp_truthy: "truthy (getProp g k) \<Longrightarrow> truthy g"
  by (cases g) auto

lemma licenseString_cases:
  "licenseString v =
     (if coercible v
      then Inr (case v of Arr xs \<Rightarrow> joinWith '', '' (map elementString xs) | _ \<Rightarrow> stringOf v)
      else Inl TypeError)"
  by (cases v) (simp_all add: licenseString_def ToString_def arrayJoin_def elementString_fun)

lemma props_setPrototype: "props (setPrototype ob v) = props ob"
  by (cases v) simp_all

lemma props_objectAssign:
  assumes "k \<noteq> ''__proto__''"
  shows "fmlookup (props (objectAssign ob src)) k = fmlookup (props ob ++\<^sub>f ownEnumerable src) k"
  using assms
  by (auto simp: objectAssign_def Let_def setProperty_def props_setPrototype split: option.splits)

lemma props_mergeGroup:
  assumes "k \<noteq> ''__proto__''"
  shows "fmlookup (props (mergeGroup G data f)) k =
         fmlookup (props f ++\<^sub>f merged (getProp data G)) k"
  using props_objectAssign [OF assms] by (simp add: mergeGroup_def merged_def)

lemma liftIngredients_props:
  "liftIngredients data f =
     f\<lparr>props := props f ++\<^sub>f contribution ''Ingredients & Nutrition'' data\<rparr>"
  by (simp add: liftIngredients_def contribution_def pick_def Let_def setProperty_plain getProp_falsy)

lemma liftManufacturing_props:
  assumes "manufacturingCoercible data"
  shows "liftManufacturing data f =
     Inr (f\<lparr>props := props f ++\<^sub>f contribution ''Manufacturing & Regulatory'' data\<rparr>)"
  using assms
  by (simp add: liftManufacturing_def manufacturingCoercible_def contribution_def pick_def
      pickLicense_def pickVegetarian_def Let_def setProperty_plain getProp_falsy
      licenseString_cases ToString_def)

lemma liftManufacturing_throws:
  assumes "\<not> manufacturingCoercible data"
  shows "liftManufacturing data f = Inl TypeError"
  using assms
  by (auto simp: liftManufacturing_def manufacturingCoercible_def Let_def
      licenseString_cases ToString_def dest: getProp_truthy)

lemma liftContact_props:
  "liftContact data f = f\<lparr>props := props f ++\<^sub>f contribution ''Contact Information'' data\<rparr>"
  by (simp add: liftContact_def contribution_def pick_def Let_def setProperty_plain getProp_falsy)

lemma liftOther_props:
  "liftOther data f = f\<lparr>props := props f ++\<^sub>f contribution ''Other Details'' data\<rparr>"
  by (simp add: liftOther_def contribution_def pick_def Let_def setProperty_plain getProp_falsy)

lemma unionOf_groupKeys:
  "unionOf groupKeys data =
     contribution ''Basic Information'' data ++\<^sub>f contribution ''Dates & Batch'' data ++\<^sub>f
     contribution ''Ingredients & Nutrition'' data ++\<^sub>f
     contribution ''Manufacturing & Regulatory'' data ++\<^sub>f
     contribution ''Contact Information'' data ++\<^sub>f contribution ''Other Details'' data"
  by (simp add: unionOf_def groupKeys_def)

lemma flatten_grouped:
  assumes "\<not> alreadyFlat data" "data \<noteq> Null" "data \<noteq> Undefined" "manufacturingCoercible data"
  shows "\<exists>ob. flattenNestedData data = Inr (Built ob) \<and>
           (\<forall>k. k \<noteq> ''__proto__'' \<longrightarrow>
                fmlookup (props ob) k = fmlookup (unionOf groupKeys data) k)"
proof -
  define f2 where
    "f2 = mergeGroup ''Dates & Batch'' data (mergeGroup ''Basic Information'' data emptyObject)"
  define ob where
    "ob = f2\<lparr>props := props f2 ++\<^sub>f contribution ''Ingredients & Nutrition'' data ++\<^sub>f
                 contribution ''Manufacturing & Regulatory'' data ++\<^sub>f
                 contribution ''Contact Information'' data ++\<^sub>f
                 contribution ''Other Details'' data\<rparr>"
  have ret: "flattenNestedData data = Inr (Built ob)"
    using assms
    by (simp add: flattenNestedData_def Let_def liftIngredients_props liftManufacturing_props
        liftContact_props liftOther_props f2_def ob_def)
  have base: "fmlookup (props f2) k =
              fmlookup (contribution ''Basic Information'' data ++\<^sub>f
                        contribution ''Dates & Batch'' data) k"
    if "k \<noteq> ''__proto__''" for k
    using that
    by (simp add: f2_def props_mergeGroup contribution_def emptyObject_def)
  have "fmlookup (props ob) k = fmlookup (unionOf groupKeys data) k"
    if "k \<noteq> ''__proto__''" for k
    using base [OF that] by (simp add: ob_def unionOf_groupKeys)
  with ret show ?thesis by blast
qed

lemma flatten_throws:
  assumes "\<not> alreadyFlat data" "data \<noteq> Null" "data \<noteq> Undefined" "\<not> manufacturingCoercible data"
  shows "flattenNestedData data = Inl TypeError"
  using assms by (simp add: flattenNestedData_def Let_def liftManufacturing_throws)

lemma pick_falsy: "\<not> truthy g \<Longrightarrow> pick k g = fmempty"
  by (simp add: pick_def getProp_falsy)

lemma pickLicense_falsy: "\<not> truthy g \<Longrightarrow> pickLicense g = fmempty"
  by (simp add: pickLicense_def getProp_falsy)

lemma pickVegetarian_falsy: "\<not> truthy g \<Longrightarrow> pickVegetarian g = fmempty"
  by (simp add: pickVegetarian_def getProp_falsy)

lemma contribution_absent:
  assumes "\<not> truthy (getProp data G)"
  shows "contribution G data = fmempty"
proof -
  let ?g = "getProp data G"
  have "merged ?g = fmempty" "pickLicense ?g = fmempty" "pickVegetarian ?g = fmempty"
    and "pick k ?g = fmempty" for k
    using assms
    by (simp_all add: merged_def pick_falsy pickLicense_falsy pickVegetarian_falsy)
  then show ?thesis
    by (simp add: contribution_def Let_def cong del: if_weak_cong split del: if_split)
qed

lemma foldl_skip:
  assumes "contribution G data = fmempty"
  shows "foldl (\<lambda>acc G. acc ++\<^sub>f contribution G data) acc (removeAll G Gs) =
         foldl (\<lambda>acc G. acc ++\<^sub>f contribution G data) acc Gs"
  using assms by (induction Gs arbitrary: acc) auto

lemma unionOf_skip:
  "contribution G data = fmempty \<Longrightarrow> unionOf (removeAll G Gs) data = unionOf Gs data"
  by (simp add: unionOf_def foldl_skip)

lemma lookup_pick:
  "fmlookup (pick k g) k' =
     (if k' = k \<and> truthy (getProp g k) then Some (getProp g k) else None)"
  by (simp add: pick_def)

lemma lookup_pickLicense_other:
  "k \<noteq> ''fssaiLicense'' \<Longrightarrow> fmlookup (pickLicense g) k = None"
  by (simp add: pickLicense_def Let_def)

lemma lookup_pickVegetarian_other:
  "k \<noteq> ''vegetarian'' \<Longrightarrow> fmlookup (pickVegetarian g) k = None"
  by (simp add: pickVegetarian_def Let_def)

lemma lookup_add_None:
  "fmlookup n k = None \<Longrightarrow> fmlookup (m ++\<^sub>f n) k = fmlookup m k"
  by (simp add: fmlookup_dom_iff)

lemma contribution_named_other:
  assumes "(G, k) \<in> set liftedByName"
    and "G' \<in> set [''Ingredients & Nutrition'', ''Manufacturing & Regulatory'',
                     ''Contact Information'', ''Other Details'']"
    and "G' \<noteq> G"
  shows "fmlookup (contribution G' data) k = None"
proof -
  have G': "G' = ''Ingredients & Nutrition'' \<or> G' = ''Manufacturing & Regulatory'' \<or>
            G' = ''Contact Information'' \<or> G' = ''Other Details''"
    using assms(2) by simp
  have pairs: "(G = ''Ingredients & Nutrition'' \<and> (k = ''ingredients'' \<or> k = ''nutritionalInfo'')) \<or>
     (G = ''Manufacturing & Regulatory'' \<and>
        (k = ''manufacturingAddresses'' \<or> k = ''fssaiLicense'' \<or> k = ''vegetarian'')) \<or>
     (G = ''Contact Information'' \<and> k = ''consumerContact'') \<or>
     (G = ''Other Details'' \<and> k = ''otherDetails'')"
    using assms(1) by (auto simp: liftedByName_def)
  have c1: "fmlookup (contribution ''Ingredients & Nutrition'' data) k = None"
    if "k \<noteq> ''ingredients''" "k \<noteq> ''nutritionalInfo''"
    using that by (simp add: contribution_def Let_def lookup_pick lookup_add_None)
  have c2: "fmlookup (contribution ''Manufacturing & Regulatory'' data) k = None"
    if "k \<noteq> ''manufacturingAddresses''" "k \<noteq> ''fssaiLicense''" "k \<noteq> ''vegetarian''"
    using that
    by (simp add: contribution_def Let_def lookup_pick lookup_add_None
        lookup_pickLicense_other lookup_pickVegetarian_other)
  have c3: "fmlookup (contribution ''Contact Information'' data) k = None"
    if "k \<noteq> ''consumerContact''"
    using that by (simp add: contribution_def Let_def lookup_pick)
  have c4: "fmlookup (contribution ''Other Details'' data) k = None"
    if "k \<noteq> ''otherDetails''"
    using that by (simp add: contribution_def Let_def lookup_pick)
  from G' show ?thesis
  proof (elim disjE)
    assume 1: "G' = ''Ingredients & Nutrition''"
    with pairs assms(3) have "k \<noteq> ''ingredients'' \<and> k \<noteq> ''nutritionalInfo''"
      by auto
    then show ?thesis unfolding 1 by (simp add: c1)
  next
    assume 2: "G' = ''Manufacturing & Regulatory''"
    with pairs assms(3) have
      "k \<noteq> ''manufacturingAddresses'' \<and> k \<noteq> ''fssaiLicense'' \<and> k \<noteq> ''vegetarian''"
      by auto
    then show ?thesis unfolding 2 by (simp add: c2)
  next
    assume 3: "G' = ''Contact Information''"
    with pairs assms(3) have "k \<noteq> ''consumerContact''"
      by auto
    then show ?thesis unfolding 3 by (simp add: c3)
  next
    assume 4: "G' = ''Other Details''"
    with pairs assms(3) have "k \<noteq> ''otherDetails''"
      by auto
    then show ?thesis unfolding 4 by (simp add: c4)
  qed
qed

lemma lookup_foldl_None:
  assumes "\<forall>G' \<in> set Gs. fmlookup (contribution G' data) k = None"
  shows "fmlookup (foldl (\<lambda>acc G. acc ++\<^sub>f contribution G data) acc Gs) k = fmlookup acc k"
  using assms by (induction Gs arbitrary: acc) (simp_all add: lookup_add_None del: fmlookup_add)

lemma named_only_from_group:
  assumes "(G, k) \<in> set liftedByName"
  shows "fmlookup (unionOf (removeAll G groupKeys) data) k =
         fmlookup (merged (getProp data ''Basic Information'') ++\<^sub>f
                   merged (getProp data ''Dates & Batch'')) k"
proof -
  let ?named = "[''Ingredients & Nutrition'', ''Manufacturing & Regulatory'',
                 ''Contact Information'', ''Other Details'']"
  have G: "G \<noteq> ''Basic Information''" "G \<noteq> ''Dates & Batch''"
    using assms by (auto simp: liftedByName_def)
  have split: "removeAll G groupKeys =
               [''Basic Information'', ''Dates & Batch''] @ removeAll G ?named"
    using G by (simp add: groupKeys_def)
  have none: "\<forall>G' \<in> set (removeAll G ?named). fmlookup (contribution G' data) k = None"
  proof
    fix G'
    assume "G' \<in> set (removeAll G ?named)"
    then have "G' \<in> set ?named" and "G' \<noteq> G"
      unfolding set_removeAll by auto
    then show "fmlookup (contribution G' data) k = None"
      by (rule contribution_named_other [OF assms])
  qed
  have "fmlookup (unionOf (removeAll G groupKeys) data) k =
        fmlookup (foldl (\<lambda>acc G. acc ++\<^sub>f contribution G data) fmempty
                    [''Basic Information'', ''Dates & Batch'']) k"
    unfolding unionOf_def split foldl_append by (rule lookup_foldl_None [OF none])
  then show ?thesis by (simp add: contribution_def)
qed

lemma contribution_simps:
  "contribution ''Basic Information'' data = merged (getProp data ''Basic Information'')"
  "contribution ''Dates & Batch'' data = merged (getProp data ''Dates & Batch'')"
  "contribution ''Ingredients & Nutrition'' data =
     pick ''ingredients'' (getProp data ''Ingredients & Nutrition'') ++\<^sub>f
     pick ''nutritionalInfo'' (getProp data ''Ingredients & Nutrition'')"
  "contribution ''Manufacturing & Regulatory'' data =
     pick ''manufacturingAddresses'' (getProp data ''Manufacturing & Regulatory'') ++\<^sub>f
     pickLicense (getProp data ''Manufacturing & Regulatory'') ++\<^sub>f
     pickVegetarian (getProp data ''Manufacturing & Regulatory'')"
  "contribution ''Contact Information'' data =
     pick ''consumerContact'' (getProp data ''Contact Information'')"
  "contribution ''Other Details'' data = pick ''otherDetails'' (getProp data ''Other Details'')"
  by (simp_all add: contribution_def Let_def)

lemma contribution_cong:
  "getProp data' K = getProp data K \<Longrightarrow> contribution K data' = contribution K data"
  by (simp add: contribution_def)

lemma map_elementString_Str: "map elementString (map Str ss) = ss"
  by (induction ss) (simp_all add: elementString_def)

lemma map_elementString_comp: "map (elementString \<circ> Str) ss = ss"
  using map_elementString_Str [of ss] by simp

lemma lookup_union_license:
  assumes "truthy (getProp (getProp data ''Manufacturing & Regulatory'') ''fssaiLicense'')"
  shows "fmlookup (unionOf groupKeys data) ''fssaiLicense'' =
         fmlookup (pickLicense (getProp data ''Manufacturing & Regulatory'')) ''fssaiLicense''"
  using assms
  by (simp add: unionOf_groupKeys contribution_simps pick_def pickLicense_def
      pickVegetarian_def Let_def)

lemma lookup_union_vegetarian:
  assumes "truthy (getProp (getProp data ''Manufacturing & Regulatory'') ''vegetarian'')"
  shows "fmlookup (unionOf groupKeys data) ''vegetarian'' =
         fmlookup (pickVegetarian (getProp data ''Manufacturing & Regulatory'')) ''vegetarian''"
  using assms
  by (simp add: unionOf_groupKeys contribution_simps pick_def pickLicense_def
      pickVegetarian_def Let_def)

lemma raises_gen:
  assumes obj: "data \<noteq> Null" "data \<noteq> Undefined"
  shows
  "(alreadyFlat data \<or> manufacturingCoercible data \<longrightarrow>
      (\<exists>r. flattenNestedData data = Inr r)) \<and>
   (\<not> alreadyFlat data \<and> \<not> manufacturingCoercible data \<longrightarrow>
      flattenNestedData data = Inl TypeError) \<and>
   ((\<forall>g. getProp data ''Manufacturing & Regulatory'' \<noteq> Obj g) \<longrightarrow>
      (\<exists>r. flattenNestedData data = Inr r))"
proof -
  have a: "\<exists>r. flattenNestedData data = Inr r" if "alreadyFlat data"
    using that obj by (simp add: flattenNestedData_def)
  have b: "\<exists>r. flattenNestedData data = Inr r"
    if "\<not> alreadyFlat data" "manufacturingCoercible data"
  proof -
    from flatten_grouped [OF that(1) obj that(2)] obtain ob
      where "flattenNestedData data = Inr (Built ob)" by (elim exE conjE)
    then show ?thesis by (rule exI)
  qed
  have ab: "\<exists>r. flattenNestedData data = Inr r" if "manufacturingCoercible data"
    using a b that by (cases "alreadyFlat data") simp_all
  have c: "manufacturingCoercible data"
    if "\<forall>g. getProp data ''Manufacturing & Regulatory'' \<noteq> Obj g"
  proof -
    have "getProp (getProp data ''Manufacturing & Regulatory'') k = Undefined" for k
      using that by (cases "getProp data ''Manufacturing & Regulatory''") simp_all
    then show ?thesis by (simp add: manufacturingCoercible_def)
  qed
  have d: "flattenNestedData data = Inl TypeError"
    if "\<not> alreadyFlat data" "\<not> manufacturingCoercible data"
    using flatten_throws [OF that(1) obj that(2)] .
  show ?thesis
  proof (intro conjI impI)
    assume "alreadyFlat data \<or> manufacturingCoercible data"
    then show "\<exists>r. flattenNestedData data = Inr r"
      using a ab by (elim disjE)
  next
    assume "\<not> alreadyFlat data \<and> \<not> manufacturingCoercible data"
    then show "flattenNestedData data = Inl TypeError" using d by simp
  next
    assume "\<forall>g. getProp data ''Manufacturing & Regulatory'' \<noteq> Obj g"
    then show "\<exists>r. flattenNestedData data = Inr r" using c ab by simp
  qed
qed

lemma falsy_drop:
  assumes "\<not> truthy (getProp (Obj g) k)"
  shows "truthy (getProp (Obj (fmdrop k g)) k') = truthy (getProp (Obj g) k')"
    and "truthy (getProp (Obj g) k') \<Longrightarrow> getProp (Obj (fmdrop k g)) k' = getProp (Obj g) k'"
  using assms by (cases "k' = k"; simp)+

lemma pick_drop:
  assumes "\<not> truthy (getProp (Obj g) k)"
  shows "pick k' (Obj (fmdrop k g)) = pick k' (Obj g)"
  using falsy_drop [OF assms, of k'] unfolding pick_def by (cases "truthy (getProp (Obj g) k')") simp_all

lemma pickLicense_drop:
  assumes "\<not> truthy (getProp (Obj g) k)"
  shows "pickLicense (Obj (fmdrop k g)) = pickLicense (Obj g)"
proof (cases "truthy (getProp (Obj g) ''fssaiLicense'')")
  case True
  then have eq: "getProp (Obj (fmdrop k g)) ''fssaiLicense'' = getProp (Obj g) ''fssaiLicense''"
    by (rule falsy_drop(2) [OF assms])
  show ?thesis unfolding pickLicense_def eq by (rule refl)
next
  case False
  moreover from False have "\<not> truthy (getProp (Obj (fmdrop k g)) ''fssaiLicense'')"
    using falsy_drop(1) [OF assms, of "''fssaiLicense''"] by simp
  ultimately show ?thesis unfolding pickLicense_def Let_def by (simp only: if_False)
qed

lemma pickVegetarian_drop:
  assumes "\<not> truthy (getProp (Obj g) k)"
  shows "pickVegetarian (Obj (fmdrop k g)) = pickVegetarian (Obj g)"
proof (cases "truthy (getProp (Obj g) ''vegetarian'')")
  case True
  then have eq: "getProp (Obj (fmdrop k g)) ''vegetarian'' = getProp (Obj g) ''vegetarian''"
    by (rule falsy_drop(2) [OF assms])
  show ?thesis unfolding pickVegetarian_def eq by (rule refl)
next
  case False
  moreover from False have "\<not> truthy (getProp (Obj (fmdrop k g)) ''vegetarian'')"
    using falsy_drop(1) [OF assms, of "''vegetarian''"] by simp
  ultimately show ?thesis unfolding pickVegetarian_def Let_def by (simp only: if_False)
qed

lemma coercible_drop:
  assumes "\<not> truthy (getProp (Obj g) k)"
  shows "(truthy (getProp (Obj (fmdrop k g)) k') \<longrightarrow> coercible (getProp (Obj (fmdrop k g)) k')) =
         (truthy (getProp (Obj g) k') \<longrightarrow> coercible (getProp (Obj g) k'))"
  using falsy_drop [OF assms, of k'] by (cases "truthy (getProp (Obj g) k')") simp_all

lemma flatten_alt:
  assumes "\<not> alreadyFlat data" "data \<noteq> Null" "data \<noteq> Undefined"
  shows "flattenNestedData data =
     (if manufacturingCoercible data
      then Inr (Built
        ((mergeGroup ''Dates & Batch'' data (mergeGroup ''Basic Information'' data emptyObject))
         \<lparr>props := props (mergeGroup ''Dates & Batch'' data
                            (mergeGroup ''Basic Information'' data emptyObject)) ++\<^sub>f
                   contribution ''Ingredients & Nutrition'' data ++\<^sub>f
                   contribution ''Manufacturing & Regulatory'' data ++\<^sub>f
                   contribution ''Contact Information'' data ++\<^sub>f
                   contribution ''Other Details'' data\<rparr>))
      else Inl TypeError)"
  using assms
  by (simp add: flattenNestedData_def Let_def liftIngredients_props liftManufacturing_props
      liftManufacturing_throws liftContact_props liftOther_props)

lemma mergeGroup_exact:
  assumes "''__proto__'' |\<notin>| fmdom (merged (getProp data G))"
  shows "mergeGroup G data f = f\<lparr>props := props f ++\<^sub>f merged (getProp data G)\<rparr>"
proof (cases "truthy (getProp data G)")
  case False
  then show ?thesis by (simp add: mergeGroup_def merged_def)
next
  case True
  with assms have n: "''__proto__'' |\<notin>| fmdom (ownEnumerable (getProp data G))"
    by (simp add: merged_def)
  then have "fmlookup (ownEnumerable (getProp data G)) ''__proto__'' = None"
    by (rule fmdom_notD)
  moreover from n have "fmdrop ''__proto__'' (ownEnumerable (getProp data G))
                        = ownEnumerable (getProp data G)"
    by (rule fmdrop_idle)
  ultimately show ?thesis
    using True by (simp add: mergeGroup_def merged_def objectAssign_def Let_def)
qed

lemma flatten_exact:
  assumes "\<not> alreadyFlat data" "data \<noteq> Null" "data \<noteq> Undefined"
    and "manufacturingCoercible data" and "noPrototypeKey data"
  shows "flattenNestedData data =
           Inr (Built \<lparr>proto = ObjectPrototype, props = unionOf groupKeys data\<rparr>)"
proof -
  have p: "''__proto__'' |\<notin>| fmdom (merged (getProp data ''Basic Information''))"
    "''__proto__'' |\<notin>| fmdom (merged (getProp data ''Dates & Batch''))"
    using assms(5) by (simp_all add: noPrototypeKey_def)
  show ?thesis
    unfolding flatten_alt [OF assms(1,2,3)] mergeGroup_exact [OF p(1)] mergeGroup_exact [OF p(2)]
    using assms(4)
    by (simp add: emptyObject_def unionOf_groupKeys contribution_simps(1,2))
qed

lemma reads_of_plain_object:
  "flatGet (Built \<lparr>proto = ObjectPrototype, props = p\<rparr>) k = getProp (Obj p) k"
  "flatHas (Built \<lparr>proto = ObjectPrototype, props = p\<rparr>) k = (k |\<in>| fmdom p)"
  by (simp_all split: option.split)

lemma getProp_cong_lookup:
  "fmlookup p k = fmlookup q k \<Longrightarrow> getProp (Obj p) k = getProp (Obj q) k"
  by simp

lemma dom_cong_lookup:
  "fmlookup p k = fmlookup q k \<Longrightarrow> (k |\<in>| fmdom p) = (k |\<in>| fmdom q)"
  by (simp add: fmlookup_dom_iff)

lemma getProp_outside:
  "k |\<notin>| fmdom p \<Longrightarrow> k |\<notin>| fmdom q \<Longrightarrow> getProp (Obj (p ++\<^sub>f q)) k = Undefined"
  by (simp add: fmdom_notD)

lemma skipped_group_gen:
  assumes grouped: "\<not> alreadyFlat data" and obj: "data \<noteq> Null" "data \<noteq> Undefined"
    and group: "G \<in> set groupKeys"
    and absent: "\<not> truthy (getProp data G)"
    and coercion: "G = ''Manufacturing & Regulatory'' \<or> manufacturingCoercible data"
  shows "\<exists>ob. flattenNestedData data = Inr (Built ob) \<and>
           (\<forall>k. k \<noteq> ''__proto__'' \<longrightarrow>
                fmlookup (props ob) k = fmlookup (unionOf (removeAll G groupKeys) data) k) \<and>
           (\<forall>k. (G, k) \<in> set liftedByName \<longrightarrow>
                fmlookup (props ob) k =
                fmlookup (merged (getProp data ''Basic Information'') ++\<^sub>f
                          merged (getProp data ''Dates & Batch'')) k) \<and>
           (noPrototypeKey data \<longrightarrow>
              ob = \<lparr>proto = ObjectPrototype, props = unionOf (removeAll G groupKeys) data\<rparr> \<and>
              (\<forall>k. (G, k) \<in> set liftedByName \<longrightarrow>
                 flatGet (Built ob) k =
                   getProp (Obj (merged (getProp data ''Basic Information'') ++\<^sub>f
                                 merged (getProp data ''Dates & Batch''))) k \<and>
                 flatHas (Built ob) k =
                   (k |\<in>| fmdom (merged (getProp data ''Basic Information'')) \<or>
                    k |\<in>| fmdom (merged (getProp data ''Dates & Batch''))) \<and>
                 (k |\<notin>| fmdom (merged (getProp data ''Basic Information'')) \<and>
                  k |\<notin>| fmdom (merged (getProp data ''Dates & Batch'')) \<longrightarrow>
                    flatGet (Built ob) k = Undefined)))"
proof -
  let ?bi = "merged (getProp data ''Basic Information'')"
  let ?db = "merged (getProp data ''Dates & Batch'')"
  let ?base = "?bi ++\<^sub>f ?db"
  let ?rest = "unionOf (removeAll G groupKeys) data"
  have mc: "manufacturingCoercible data"
  proof (cases "G = ''Manufacturing & Regulatory''")
    case True
    with absent have "getProp (getProp data ''Manufacturing & Regulatory'') k = Undefined" for k
      by (simp add: getProp_falsy)
    then show ?thesis by (simp add: manufacturingCoercible_def)
  next
    case False
    with coercion show ?thesis by simp
  qed
  from flatten_grouped [OF grouped obj mc] obtain ob where
    ret: "flattenNestedData data = Inr (Built ob)" and
    un: "\<forall>k. k \<noteq> ''__proto__'' \<longrightarrow>
           fmlookup (props ob) k = fmlookup (unionOf groupKeys data) k"
    by (elim exE conjE)
  have skip: "?rest = unionOf groupKeys data"
    by (rule unionOf_skip) (rule contribution_absent [OF absent])
  have a: "fmlookup (props ob) k = fmlookup ?rest k" if "k \<noteq> ''__proto__''" for k
    using un that skip by simp
  have b: "fmlookup (props ob) k = fmlookup ?base k" if "(G, k) \<in> set liftedByName" for k
  proof -
    have "k \<noteq> ''__proto__''" using that by (auto simp: liftedByName_def)
    then show ?thesis using a named_only_from_group [OF that] by simp
  qed
  have c: "ob = \<lparr>proto = ObjectPrototype, props = ?rest\<rparr>" if "noPrototypeKey data"
    using ret flatten_exact [OF grouped obj mc that] skip by simp
  have r: "flatGet (Built ob) k = getProp (Obj ?base) k \<and>
           flatHas (Built ob) k = (k |\<in>| fmdom ?base)"
    if np: "noPrototypeKey data" and named: "(G, k) \<in> set liftedByName" for k
  proof -
    have l: "fmlookup ?rest k = fmlookup ?base k"
      using a b [OF named] named by (auto simp: liftedByName_def)
    show ?thesis
      unfolding c [OF np] reads_of_plain_object
      using getProp_cong_lookup [OF l] dom_cong_lookup [OF l] by (intro conjI)
  qed
  show ?thesis
  proof (intro exI conjI allI impI)
    show "flattenNestedData data = Inr (Built ob)" by (rule ret)
  next
    fix k assume "k \<noteq> ''__proto__''"
    then show "fmlookup (props ob) k = fmlookup ?rest k" by (rule a)
  next
    fix k assume "(G, k) \<in> set liftedByName"
    then show "fmlookup (props ob) k = fmlookup ?base k" by (rule b)
  next
    assume "noPrototypeKey data"
    then show "ob = \<lparr>proto = ObjectPrototype, props = ?rest\<rparr>" by (rule c)
  next
    fix k assume "noPrototypeKey data" "(G, k) \<in> set liftedByName"
    then show "flatGet (Built ob) k = getProp (Obj ?base) k"
      using r by simp
  next
    fix k assume "noPrototypeKey data" "(G, k) \<in> set liftedByName"
    then have "flatHas (Built ob) k = (k |\<in>| fmdom ?base)"
      using r by simp
    then show "flatHas (Built ob) k = (k |\<in>| fmdom ?bi \<or> k |\<in>| fmdom ?db)"
      by simp
  next
    fix k assume "noPrototypeKey data" "(G, k) \<in> set liftedByName"
      and out: "k |\<notin>| fmdom ?bi \<and> k |\<notin>| fmdom ?db"
    then have "flatGet (Built ob) k = getProp (Obj ?base) k"
      using r by simp
    also have "\<dots> = Undefined"
      using out by (intro getProp_outside) simp_all
    finally show "flatGet (Built ob) k = Undefined" .
  qed
qed

lemma grouped_union_gen:
  assumes grouped: "\<not> alreadyFlat data" and obj: "data \<noteq> Null" "data \<noteq> Undefined"
    and coercion: "manufacturingCoercible data"
  shows "\<exists>ob. flattenNestedData data = Inr (Built ob) \<and>
           (\<forall>k. k \<noteq> ''__proto__'' \<longrightarrow>
                fmlookup (props ob) k = fmlookup (unionOf groupKeys data) k) \<and>
           (noPrototypeKey data \<longrightarrow>
              ob = \<lparr>proto = ObjectPrototype, props = unionOf groupKeys data\<rparr> \<and>
              (\<forall>k. flatGet (Built ob) k = getProp (Obj (unionOf groupKeys data)) k \<and>
                   flatHas (Built ob) k = (k |\<in>| fmdom (unionOf groupKeys data)))) \<and>
           (\<forall>xs. getProp (getProp data ''Manufacturing & Regulatory'') ''fssaiLicense'' = Arr xs
                \<longrightarrow> fmlookup (props ob) ''fssaiLicense''
                      = Some (Str (joinWith '', '' (map elementString xs)))) \<and>
           (\<forall>ss. getProp (getProp data ''Manufacturing & Regulatory'') ''fssaiLicense''
                   = Arr (map Str ss) \<longrightarrow>
                fmlookup (props ob) ''fssaiLicense'' = Some (Str (joinWith '', '' ss))) \<and>
           (\<forall>v. getProp (getProp data ''Manufacturing & Regulatory'') ''fssaiLicense'' = v \<and>
                truthy v \<and> \<not> isArray v \<longrightarrow>
                fmlookup (props ob) ''fssaiLicense'' = Some (Str (stringOf v))) \<and>
           (\<forall>v. getProp (getProp data ''Manufacturing & Regulatory'') ''vegetarian'' = v \<and>
                truthy v \<longrightarrow>
                fmlookup (props ob) ''vegetarian'' = Some (Str (stringOf v)))"
proof -
  from flatten_grouped [OF grouped obj coercion] obtain ob where
    ret: "flattenNestedData data = Inr (Built ob)" and
    un: "\<forall>k. k \<noteq> ''__proto__'' \<longrightarrow>
           fmlookup (props ob) k = fmlookup (unionOf groupKeys data) k"
    by (elim exE conjE)
  let ?mr = "getProp data ''Manufacturing & Regulatory''"
  have lic: "fmlookup (props ob) ''fssaiLicense'' = fmlookup (pickLicense ?mr) ''fssaiLicense''"
    if "truthy (getProp ?mr ''fssaiLicense'')"
    using un lookup_union_license [OF that] by simp
  have veg: "fmlookup (props ob) ''vegetarian'' = fmlookup (pickVegetarian ?mr) ''vegetarian''"
    if "truthy (getProp ?mr ''vegetarian'')"
    using un lookup_union_vegetarian [OF that] by simp
  have e: "ob = \<lparr>proto = ObjectPrototype, props = unionOf groupKeys data\<rparr>"
    if "noPrototypeKey data"
    using ret flatten_exact [OF grouped obj coercion that] by simp
  have x: "fmlookup (props ob) ''fssaiLicense''
             = Some (Str (joinWith '', '' (map elementString xs)))"
    if "getProp ?mr ''fssaiLicense'' = Arr xs" for xs
    using lic that by (simp add: pickLicense_def)
  have j: "fmlookup (props ob) ''fssaiLicense'' = Some (Str (joinWith '', '' ss))"
    if "getProp ?mr ''fssaiLicense'' = Arr (map Str ss)" for ss
    using x [OF that] by (simp add: map_elementString_comp)
  have s: "fmlookup (props ob) ''fssaiLicense'' = Some (Str (stringOf v))"
    if "getProp ?mr ''fssaiLicense'' = v \<and> truthy v \<and> \<not> isArray v" for v
    using lic that by (cases v) (simp_all add: pickLicense_def)
  have v: "fmlookup (props ob) ''vegetarian'' = Some (Str (stringOf v))"
    if "getProp ?mr ''vegetarian'' = v \<and> truthy v" for v
    using veg that by (simp add: pickVegetarian_def)
  show ?thesis
  proof (intro exI conjI allI impI)
    show "flattenNestedData data = Inr (Built ob)" by (rule ret)
  next
    fix k assume "k \<noteq> ''__proto__''"
    with un show "fmlookup (props ob) k = fmlookup (unionOf groupKeys data) k" by simp
  next
    assume "noPrototypeKey data"
    then show "ob = \<lparr>proto = ObjectPrototype, props = unionOf groupKeys data\<rparr>" by (rule e)
  next
    fix k assume np: "noPrototypeKey data"
    show "flatGet (Built ob) k = getProp (Obj (unionOf groupKeys data)) k"
      unfolding e [OF np] reads_of_plain_object by (rule refl)
  next
    fix k assume np: "noPrototypeKey data"
    show "flatHas (Built ob) k = (k |\<in>| fmdom (unionOf groupKeys data))"
      unfolding e [OF np] reads_of_plain_object by (rule refl)
  next
    fix xs assume "getProp ?mr ''fssaiLicense'' = Arr xs"
    then show "fmlookup (props ob) ''fssaiLicense''
                 = Some (Str (joinWith '', '' (map elementString xs)))"
      by (rule x)
  next
    fix ss assume "getProp ?mr ''fssaiLicense'' = Arr (map Str ss)"
    then show "fmlookup (props ob) ''fssaiLicense'' = Some (Str (joinWith '', '' ss))"
      by (rule j)
  next
    fix v assume "getProp ?mr ''fssaiLicense'' = v \<and> truthy v \<and> \<not> isArray v"
    then show "fmlookup (props ob) ''fssaiLicense'' = Some (Str (stringOf v))" by (rule s)
  next
    fix w assume "getProp ?mr ''vegetarian'' = w \<and> truthy w"
    then show "fmlookup (props ob) ''vegetarian'' = Some (Str (stringOf w))" by (rule v)
  qed
qed

lemma prototype_key_supplies_field:
  "flattenNestedData
     (Obj (fmap_of_list
        [(''Basic Information'',
            Obj (fmap_of_list
              [(''__proto__'', Obj (fmap_of_list [(''consumerContact'', Str ''1800'')])),
               (''mrp'', Str ''5'')]))]))
   = Inr (Built \<lparr>proto = ValuePrototype (Obj (fmap_of_list [(''consumerContact'', Str ''1800'')])),
                  props = fmap_of_list [(''mrp'', Str ''5'')]\<rparr>) \<and>
   flatGet (Built \<lparr>proto = ValuePrototype (Obj (fmap_of_list [(''consumerContact'', Str ''1800'')])),
                   props = fmap_of_list [(''mrp'', Str ''5'')]\<rparr>) ''consumerContact''
   = Str ''1800''"
  by (simp add: flattenNestedData_def alreadyFlat_def mergeGroup_def liftIngredients_def
      liftManufacturing_def liftContact_def liftOther_def objectAssign_def emptyObject_def
      setProperty_def fmdrop_fmupd)

section \<open>Properties of the shape normalizer\<close>

text \<open>
  C3. An object that the normalizer classifies as already flat (a non-empty, that is
  truthy, \<^verbatim>\<open>name\<close> or \<^verbatim>\<open>company\<close>, or neither \<^verbatim>\<open>Basic Information\<close> nor \<^verbatim>\<open>Dates & Batch\<close>
  holding anything) is returned unchanged, and normalizing that output again returns it
  unchanged as well.
\<close>

theorem flatten_flat_identity:
  assumes "truthy (getProp (Obj m) ''name'') \<or> truthy (getProp (Obj m) ''company'') \<or>
           (\<not> truthy (getProp (Obj m) ''Basic Information'') \<and>
            \<not> truthy (getProp (Obj m) ''Dates & Batch''))"
  shows "flattenNestedData (Obj m) = Inr (Given (Obj m)) \<and>
         (case flattenNestedData (Obj m) of
            Inr (Given out) \<Rightarrow> flattenNestedData out = Inr (Given (Obj m))
          | _ \<Rightarrow> False)"
proof -
  have "alreadyFlat (Obj m)"
    using assms unfolding alreadyFlat_def .
  then have "flattenNestedData (Obj m) = Inr (Given (Obj m))"
    by (simp add: flattenNestedData_def)
  then show ?thesis by simp
qed

theorem flatten_flat_identity_witness:
  "truthy (getProp (Obj (fmap_of_list [(''name'', Str ''Choco Bar''), (''mrp'', Str ''50''),
                         (''ingredients'', Arr [Str ''Cocoa'', Str ''Sugar''])])) ''name'') \<and>
   flattenNestedData
     (Obj (fmap_of_list [(''name'', Str ''Choco Bar''), (''mrp'', Str ''50''),
                         (''ingredients'', Arr [Str ''Cocoa'', Str ''Sugar''])]))
   = Inr (Given (Obj (fmap_of_list [(''name'', Str ''Choco Bar''), (''mrp'', Str ''50''),
                         (''ingredients'', Arr [Str ''Cocoa'', Str ''Sugar''])])))"
  using flatten_flat_identity
    [of "fmap_of_list [(''name'', Str ''Choco Bar''), (''mrp'', Str ''50''),
                       (''ingredients'', Arr [Str ''Cocoa'', Str ''Sugar''])]"]
  by simp

text \<open>
  C4, as the claim states it, fails: a grouped object with all six groups populated whose
  \<^verbatim>\<open>vegetarian\<close> value is an object with an own \<^verbatim>\<open>toString\<close> property makes \<^verbatim>\<open>String\<close> throw,
  so nothing is returned.
\<close>

theorem flatten_union_counterexample:
  "populated
     (Obj (fmap_of_list
        [(''Basic Information'', Obj (fmap_of_list [(''name'', Str ''Tea'')])),
         (''Dates & Batch'', Obj (fmap_of_list [(''batchNumber'', Str ''B7'')])),
         (''Ingredients & Nutrition'', Obj (fmap_of_list [(''ingredients'', Arr [Str ''Tea''])])),
         (''Manufacturing & Regulatory'',
            Obj (fmap_of_list
              [(''vegetarian'', Obj (fmap_of_list [(''toString'', Str ''yes'')]))])),
         (''Contact Information'',
            Obj (fmap_of_list [(''consumerContact'', Obj (fmap_of_list [(''phone'', Str ''1800'')]))])),
         (''Other Details'',
            Obj (fmap_of_list [(''otherDetails'', Obj (fmap_of_list [(''origin'', Str ''Assam'')]))]))])) \<and>
   flattenNestedData
     (Obj (fmap_of_list
        [(''Basic Information'', Obj (fmap_of_list [(''name'', Str ''Tea'')])),
         (''Dates & Batch'', Obj (fmap_of_list [(''batchNumber'', Str ''B7'')])),
         (''Ingredients & Nutrition'', Obj (fmap_of_list [(''ingredients'', Arr [Str ''Tea''])])),
         (''Manufacturing & Regulatory'',
            Obj (fmap_of_list
              [(''vegetarian'', Obj (fmap_of_list [(''toString'', Str ''yes'')]))])),
         (''Contact Information'',
            Obj (fmap_of_list [(''consumerContact'', Obj (fmap_of_list [(''phone'', Str ''1800'')]))])),
         (''Other Details'',
            Obj (fmap_of_list [(''otherDetails'', Obj (fmap_of_list [(''origin'', Str ''Assam'')]))]))]))
   = Inl TypeError"
  by (simp add: populated_def groupKeys_def flattenNestedData_def alreadyFlat_def
      mergeGroup_def liftIngredients_def liftManufacturing_def ToString_def objectAssign_def
      emptyObject_def setProperty_def)

text \<open>
  C4, amended. For every grouped object with all six group keys populated whose truthy
  \<^verbatim>\<open>fssaiLicense\<close> and \<^verbatim>\<open>vegetarian\<close> values can be coerced to strings, \<^verbatim>\<open>flattenNestedData\<close>
  returns a fresh object whose own properties, \<^verbatim>\<open>__proto__\<close> apart, are those of the union of
  what the six groups contribute: \<^verbatim>\<open>Basic Information\<close> and \<^verbatim>\<open>Dates & Batch\<close> every own
  enumerable property, whatever its value, the four other groups the fields they lift by
  name when the value is truthy, a later group winning where two supply the same key.
  When neither \<^verbatim>\<open>Basic Information\<close> nor \<^verbatim>\<open>Dates & Batch\<close> has an own \<^verbatim>\<open>__proto__\<close> key, the
  result is exactly the plain object with the properties of that union, and every read of
  it gives what the union holds. An \<^verbatim>\<open>fssaiLicense\<close> that is a sequence is stored as the
  renderings of its elements (the empty string for \<^verbatim>\<open>null\<close> and \<^verbatim>\<open>undefined\<close>, the string
  rendering for any other element) with a comma and a space between them, so a sequence of
  strings as their concatenation with that separator; a truthy \<^verbatim>\<open>fssaiLicense\<close> that is not
  a sequence and every truthy \<^verbatim>\<open>vegetarian\<close> as its string rendering.
\<close>

theorem flatten_union:
  assumes grouped: "\<not> alreadyFlat (Obj m)"
    and pop: "populated (Obj m)"
    and coercion: "manufacturingCoercible (Obj m)"
  shows "\<exists>ob. flattenNestedData (Obj m) = Inr (Built ob) \<and>
           (\<forall>k. k \<noteq> ''__proto__'' \<longrightarrow>
                fmlookup (props ob) k = fmlookup (unionOf groupKeys (Obj m)) k) \<and>
           (noPrototypeKey (Obj m) \<longrightarrow>
              ob = \<lparr>proto = ObjectPrototype, props = unionOf groupKeys (Obj m)\<rparr> \<and>
              (\<forall>k. flatGet (Built ob) k = getProp (Obj (unionOf groupKeys (Obj m))) k \<and>
                   flatHas (Built ob) k = (k |\<in>| fmdom (unionOf groupKeys (Obj m))))) \<and>
           (\<forall>xs. getProp (getProp (Obj m) ''Manufacturing & Regulatory'') ''fssaiLicense''
                   = Arr xs \<longrightarrow>
                fmlookup (props ob) ''fssaiLicense''
                  = Some (Str (joinWith '', '' (map elementString xs)))) \<and>
           (\<forall>ss. getProp (getProp (Obj m) ''Manufacturing & Regulatory'') ''fssaiLicense''
                   = Arr (map Str ss) \<longrightarrow>
                fmlookup (props ob) ''fssaiLicense'' = Some (Str (joinWith '', '' ss))) \<and>
           (\<forall>v. getProp (getProp (Obj m) ''Manufacturing & Regulatory'') ''fssaiLicense'' = v \<and>
                truthy v \<and> \<not> isArray v \<longrightarrow>
                fmlookup (props ob) ''fssaiLicense'' = Some (Str (stringOf v))) \<and>
           (\<forall>v. getProp (getProp (Obj m) ''Manufacturing & Regulatory'') ''vegetarian'' = v \<and>
                truthy v \<longrightarrow>
                fmlookup (props ob) ''vegetarian'' = Some (Str (stringOf v)))"
proof -
  have "Obj m \<noteq> Null" and "Obj m \<noteq> Undefined" by simp_all
  from grouped_union_gen [OF grouped this coercion] show ?thesis .
qed

theorem flatten_union_witness:
  "\<not> alreadyFlat
     (Obj (fmap_of_list
        [(''Basic Information'', Obj (fmap_of_list [(''name'', Str '''')])),
         (''Dates & Batch'', Obj (fmap_of_list [(''batchNumber'', Str ''B7'')])),
         (''Ingredients & Nutrition'', Obj (fmap_of_list [(''ingredients'', Arr [Str ''Tea''])])),
         (''Manufacturing & Regulatory'',
            Obj (fmap_of_list
              [(''fssaiLicense'', Arr (map Str [''A1234'', ''B5678''])),
               (''vegetarian'', Bool True)])),
         (''Contact Information'',
            Obj (fmap_of_list [(''consumerContact'', Obj (fmap_of_list [(''phone'', Str ''1800'')]))])),
         (''Other Details'',
            Obj (fmap_of_list [(''otherDetails'', Obj (fmap_of_list [(''origin'', Str ''Assam'')]))]))])) \<and>
   populated
     (Obj (fmap_of_list
        [(''Basic Information'', Obj (fmap_of_list [(''name'', Str '''')])),
         (''Dates & Batch'', Obj (fmap_of_list [(''batchNumber'', Str ''B7'')])),
         (''Ingredients & Nutrition'', Obj (fmap_of_list [(''ingredients'', Arr [Str ''Tea''])])),
         (''Manufacturing & Regulatory'',
            Obj (fmap_of_list
              [(''fssaiLicense'', Arr (map Str [''A1234'', ''B5678''])),
               (''vegetarian'', Bool True)])),
         (''Contact Information'',
            Obj (fmap_of_list [(''consumerContact'', Obj (fmap_of_list [(''phone'', Str ''1800'')]))])),
         (''Other Details'',
            Obj (fmap_of_list [(''otherDetails'', Obj (fmap_of_list [(''origin'', Str ''Assam'')]))]))])) \<and>
   (\<exists>ob. flattenNestedData
     (Obj (fmap_of_list
        [(''Basic Information'', Obj (fmap_of_list [(''name'', Str '''')])),
         (''Dates & Batch'', Obj (fmap_of_list [(''batchNumber'', Str ''B7'')])),
         (''Ingredients & Nutrition'', Obj (fmap_of_list [(''ingredients'', Arr [Str ''Tea''])])),
         (''Manufacturing & Regulatory'',
            Obj (fmap_of_list
              [(''fssaiLicense'', Arr (map Str [''A1234'', ''B5678''])),
               (''vegetarian'', Bool True)])),
         (''Contact Information'',
            Obj (fmap_of_list [(''consumerContact'', Obj (fmap_of_list [(''phone'', Str ''1800'')]))])),
         (''Other Details'',
            Obj (fmap_of_list [(''otherDetails'', Obj (fmap_of_list [(''origin'', Str ''Assam'')]))]))]))
       = Inr (Built ob) \<and>
     proto ob = ObjectPrototype \<and>
     fmlookup (props ob) ''name'' = Some (Str '''') \<and>
     fmlookup (props ob) ''fssaiLicense'' = Some (Str ''A1234, B5678'') \<and>
     fmlookup (props ob) ''vegetarian'' = Some (Str ''true'') \<and>
     flatGet (Built ob) ''batchNumber'' = Str ''B7'' \<and>
     flatGet (Built ob) ''trademark'' = Undefined)"
proof -
  let ?m = "fmap_of_list
        [(''Basic Information'', Obj (fmap_of_list [(''name'', Str '''')])),
         (''Dates & Batch'', Obj (fmap_of_list [(''batchNumber'', Str ''B7'')])),
         (''Ingredients & Nutrition'', Obj (fmap_of_list [(''ingredients'', Arr [Str ''Tea''])])),
         (''Manufacturing & Regulatory'',
            Obj (fmap_of_list
              [(''fssaiLicense'', Arr (map Str [''A1234'', ''B5678''])),
               (''vegetarian'', Bool True)])),
         (''Contact Information'',
            Obj (fmap_of_list [(''consumerContact'', Obj (fmap_of_list [(''phone'', Str ''1800'')]))])),
         (''Other Details'',
            Obj (fmap_of_list [(''otherDetails'', Obj (fmap_of_list [(''origin'', Str ''Assam'')]))]))]"
  have g: "\<not> alreadyFlat (Obj ?m)"
    by (simp add: alreadyFlat_def)
  have p: "populated (Obj ?m)"
    by (simp add: populated_def groupKeys_def)
  have c: "manufacturingCoercible (Obj ?m)"
    by (simp add: manufacturingCoercible_def)
  have np: "noPrototypeKey (Obj ?m)"
    by (simp add: noPrototypeKey_def merged_def)
  have lic: "getProp (getProp (Obj ?m) ''Manufacturing & Regulatory'') ''fssaiLicense''
             = Arr (map Str [''A1234'', ''B5678''])"
    by simp
  have veg: "getProp (getProp (Obj ?m) ''Manufacturing & Regulatory'') ''vegetarian'' = Bool True
             \<and> truthy (Bool True)"
    by simp
  have u: "fmlookup (unionOf groupKeys (Obj ?m)) ''name'' = Some (Str '''')"
    "getProp (Obj (unionOf groupKeys (Obj ?m))) ''batchNumber'' = Str ''B7''"
    "getProp (Obj (unionOf groupKeys (Obj ?m))) ''trademark'' = Undefined"
    by (simp_all add: groupKeys_def unionOf_def contribution_def merged_def pick_def
        pickLicense_def pickVegetarian_def)
  note w = flatten_union [OF g p c]
  from w obtain ob where
    ret: "flattenNestedData (Obj ?m) = Inr (Built ob)" and
    un: "\<forall>k. k \<noteq> ''__proto__'' \<longrightarrow>
           fmlookup (props ob) k = fmlookup (unionOf groupKeys (Obj ?m)) k" and
    ex: "noPrototypeKey (Obj ?m) \<longrightarrow>
           ob = \<lparr>proto = ObjectPrototype, props = unionOf groupKeys (Obj ?m)\<rparr> \<and>
           (\<forall>k. flatGet (Built ob) k = getProp (Obj (unionOf groupKeys (Obj ?m))) k \<and>
                flatHas (Built ob) k = (k |\<in>| fmdom (unionOf groupKeys (Obj ?m))))" and
    j: "\<forall>ss. getProp (getProp (Obj ?m) ''Manufacturing & Regulatory'') ''fssaiLicense''
                = Arr (map Str ss) \<longrightarrow>
             fmlookup (props ob) ''fssaiLicense'' = Some (Str (joinWith '', '' ss))" and
    v: "\<forall>v. getProp (getProp (Obj ?m) ''Manufacturing & Regulatory'') ''vegetarian'' = v \<and>
             truthy v \<longrightarrow>
             fmlookup (props ob) ''vegetarian'' = Some (Str (stringOf v))"
    by (elim exE conjE)
  note e = ex [THEN mp, OF np]
  from e [THEN conjunct1] have pr: "proto ob = ObjectPrototype"
    by simp
  from un [rule_format, of "''name''"] u(1)
  have n: "fmlookup (props ob) ''name'' = Some (Str '''')"
    by simp
  from j [rule_format, OF lic]
  have a: "fmlookup (props ob) ''fssaiLicense'' = Some (Str ''A1234, B5678'')"
    by simp
  from v [rule_format, OF veg]
  have b: "fmlookup (props ob) ''vegetarian'' = Some (Str ''true'')"
    by simp
  from e [THEN conjunct2, rule_format, THEN conjunct1, of "''batchNumber''"] u(2)
  have r1: "flatGet (Built ob) ''batchNumber'' = Str ''B7''"
    by (simp only:)
  from e [THEN conjunct2, rule_format, THEN conjunct1, of "''trademark''"] u(3)
  have r2: "flatGet (Built ob) ''trademark'' = Undefined"
    by (simp only:)
  from ret pr n a b r1 r2 have "\<exists>ob. flattenNestedData (Obj ?m) = Inr (Built ob) \<and>
     proto ob = ObjectPrototype \<and>
     fmlookup (props ob) ''name'' = Some (Str '''') \<and>
     fmlookup (props ob) ''fssaiLicense'' = Some (Str ''A1234, B5678'') \<and>
     fmlookup (props ob) ''vegetarian'' = Some (Str ''true'') \<and>
     flatGet (Built ob) ''batchNumber'' = Str ''B7'' \<and>
     flatGet (Built ob) ''trademark'' = Undefined"
    by (intro exI [of _ ob] conjI)
  with g p show ?thesis by (intro conjI)
qed

text \<open>
  C6, as the claim states it, fails: a grouped object without the \<^verbatim>\<open>Contact Information\<close>
  key whose \<^verbatim>\<open>Basic Information\<close> group carries a \<^verbatim>\<open>consumerContact\<close> key flattens to an
  object that has \<^verbatim>\<open>consumerContact\<close> set, since the merge of that group copies every key.
\<close>

theorem absent_group_counterexample:
  "getProp
     (Obj (fmap_of_list
        [(''Basic Information'',
            Obj (fmap_of_list
              [(''name'', Str ''Tea''),
               (''consumerContact'', Obj (fmap_of_list [(''phone'', Str ''1800'')]))]))]))
     ''Contact Information'' = Undefined \<and>
   flattenNestedData
     (Obj (fmap_of_list
        [(''Basic Information'',
            Obj (fmap_of_list
              [(''name'', Str ''Tea''),
               (''consumerContact'', Obj (fmap_of_list [(''phone'', Str ''1800'')]))]))]))
   = Inr (Built \<lparr>proto = ObjectPrototype,
                  props = fmap_of_list
                    [(''name'', Str ''Tea''),
                     (''consumerContact'', Obj (fmap_of_list [(''phone'', Str ''1800'')]))]\<rparr>)"
  by (simp add: flattenNestedData_def alreadyFlat_def mergeGroup_def liftIngredients_def
      liftManufacturing_def liftContact_def liftOther_def objectAssign_def emptyObject_def
      fmdrop_fmupd)

text \<open>
  C6, amended. For every grouped object in which one of the six group keys is absent (or
  holds a falsy value), \<^verbatim>\<open>flattenNestedData\<close> skips that group: provided the absent group is
  \<^verbatim>\<open>Manufacturing & Regulatory\<close> or the truthy \<^verbatim>\<open>fssaiLicense\<close> and \<^verbatim>\<open>vegetarian\<close> values of that
  group can be coerced to strings, it returns a fresh object whose own properties,
  \<^verbatim>\<open>__proto__\<close> apart, are those of the union of what the other groups contribute, and whose
  own property under a field lifted by name from the absent group (for example
  \<^verbatim>\<open>consumerContact\<close>) is what the merge of \<^verbatim>\<open>Basic Information\<close> and \<^verbatim>\<open>Dates & Batch\<close> put
  there. When neither of these two groups has an own \<^verbatim>\<open>__proto__\<close> key, the result is exactly
  the plain object with the properties of that union, and reading such a field from it
  gives what the merge of the two groups holds under that name: \<^verbatim>\<open>undefined\<close> when neither
  group carries a key of that name, and the field is then not in the object.
\<close>

theorem absent_group_skipped:
  assumes grouped: "\<not> alreadyFlat (Obj m)"
    and group: "G \<in> set groupKeys"
    and absent: "\<not> truthy (getProp (Obj m) G)"
    and coercion: "G = ''Manufacturing & Regulatory'' \<or> manufacturingCoercible (Obj m)"
  shows "\<exists>ob. flattenNestedData (Obj m) = Inr (Built ob) \<and>
           (\<forall>k. k \<noteq> ''__proto__'' \<longrightarrow>
                fmlookup (props ob) k =
                fmlookup (unionOf (removeAll G groupKeys) (Obj m)) k) \<and>
           (\<forall>k. (G, k) \<in> set liftedByName \<longrightarrow>
                fmlookup (props ob) k =
                fmlookup (merged (getProp (Obj m) ''Basic Information'') ++\<^sub>f
                          merged (getProp (Obj m) ''Dates & Batch'')) k) \<and>
           (noPrototypeKey (Obj m) \<longrightarrow>
              ob = \<lparr>proto = ObjectPrototype,
                    props = unionOf (removeAll G groupKeys) (Obj m)\<rparr> \<and>
              (\<forall>k. (G, k) \<in> set liftedByName \<longrightarrow>
                 flatGet (Built ob) k =
                   getProp (Obj (merged (getProp (Obj m) ''Basic Information'') ++\<^sub>f
                                 merged (getProp (Obj m) ''Dates & Batch''))) k \<and>
                 flatHas (Built ob) k =
                   (k |\<in>| fmdom (merged (getProp (Obj m) ''Basic Information'')) \<or>
                    k |\<in>| fmdom (merged (getProp (Obj m) ''Dates & Batch''))) \<and>
                 (k |\<notin>| fmdom (merged (getProp (Obj m) ''Basic Information'')) \<and>
                  k |\<notin>| fmdom (merged (getProp (Obj m) ''Dates & Batch'')) \<longrightarrow>
                    flatGet (Built ob) k = Undefined)))"
proof -
  have "Obj m \<noteq> Null" and "Obj m \<noteq> Undefined" by simp_all
  from skipped_group_gen [OF grouped this group absent coercion] show ?thesis .
qed

theorem absent_group_skipped_witness:
  "\<not> alreadyFlat
     (Obj (fmap_of_list
        [(''Basic Information'', Obj (fmap_of_list [(''name'', Str ''Tea'')])),
         (''Dates & Batch'', Obj (fmap_of_list [(''expiryDate'', Str ''2025-12-01'')]))])) \<and>
   ''Contact Information'' \<in> set groupKeys \<and>
   \<not> truthy (getProp
     (Obj (fmap_of_list
        [(''Basic Information'', Obj (fmap_of_list [(''name'', Str ''Tea'')])),
         (''Dates & Batch'', Obj (fmap_of_list [(''expiryDate'', Str ''2025-12-01'')]))]))
     ''Contact Information'') \<and>
   noPrototypeKey
     (Obj (fmap_of_list
        [(''Basic Information'', Obj (fmap_of_list [(''name'', Str ''Tea'')])),
         (''Dates & Batch'', Obj (fmap_of_list [(''expiryDate'', Str ''2025-12-01'')]))])) \<and>
   (\<exists>ob. flattenNestedData
     (Obj (fmap_of_list
        [(''Basic Information'', Obj (fmap_of_list [(''name'', Str ''Tea'')])),
         (''Dates & Batch'', Obj (fmap_of_list [(''expiryDate'', Str ''2025-12-01'')]))]))
       = Inr (Built ob) \<and>
     proto ob = ObjectPrototype \<and>
     fmlookup (props ob) ''consumerContact'' = None \<and>
     fmlookup (props ob) ''name'' = Some (Str ''Tea'') \<and>
     fmlookup (props ob) ''expiryDate'' = Some (Str ''2025-12-01'') \<and>
     flatGet (Built ob) ''consumerContact'' = Undefined \<and>
     \<not> flatHas (Built ob) ''consumerContact'')"
proof -
  let ?m = "fmap_of_list
        [(''Basic Information'', Obj (fmap_of_list [(''name'', Str ''Tea'')])),
         (''Dates & Batch'', Obj (fmap_of_list [(''expiryDate'', Str ''2025-12-01'')]))]"
  have g: "\<not> alreadyFlat (Obj ?m)"
    by (simp add: alreadyFlat_def)
  have k: "''Contact Information'' \<in> set groupKeys"
    by (simp add: groupKeys_def)
  have a: "\<not> truthy (getProp (Obj ?m) ''Contact Information'')"
    by simp
  have c: "''Contact Information'' = ''Manufacturing & Regulatory'' \<or>
           manufacturingCoercible (Obj ?m)"
    by (simp add: manufacturingCoercible_def)
  have np: "noPrototypeKey (Obj ?m)"
    by (simp add: noPrototypeKey_def merged_def)
  have named: "(''Contact Information'', ''consumerContact'') \<in> set liftedByName"
    by (simp add: liftedByName_def)
  have out: "''consumerContact'' |\<notin>| fmdom (merged (getProp (Obj ?m) ''Basic Information'')) \<and>
             ''consumerContact'' |\<notin>| fmdom (merged (getProp (Obj ?m) ''Dates & Batch''))"
    by (simp add: merged_def)
  from absent_group_skipped [OF g k a c] obtain ob where
    ret: "flattenNestedData (Obj ?m) = Inr (Built ob)" and
    un: "\<forall>k. k \<noteq> ''__proto__'' \<longrightarrow>
                fmlookup (props ob) k =
                fmlookup (unionOf (removeAll ''Contact Information'' groupKeys) (Obj ?m)) k" and
    ex: "noPrototypeKey (Obj ?m) \<longrightarrow>
              ob = \<lparr>proto = ObjectPrototype,
                    props = unionOf (removeAll ''Contact Information'' groupKeys) (Obj ?m)\<rparr> \<and>
              (\<forall>k. (''Contact Information'', k) \<in> set liftedByName \<longrightarrow>
                 flatGet (Built ob) k =
                   getProp (Obj (merged (getProp (Obj ?m) ''Basic Information'') ++\<^sub>f
                                 merged (getProp (Obj ?m) ''Dates & Batch''))) k \<and>
                 flatHas (Built ob) k =
                   (k |\<in>| fmdom (merged (getProp (Obj ?m) ''Basic Information'')) \<or>
                    k |\<in>| fmdom (merged (getProp (Obj ?m) ''Dates & Batch''))) \<and>
                 (k |\<notin>| fmdom (merged (getProp (Obj ?m) ''Basic Information'')) \<and>
                  k |\<notin>| fmdom (merged (getProp (Obj ?m) ''Dates & Batch'')) \<longrightarrow>
                    flatGet (Built ob) k = Undefined))"
    by (elim exE conjE)
  note e = ex [THEN mp, OF np]
  note rd = e [THEN conjunct2, rule_format, OF named]
  from e [THEN conjunct1] have pr: "proto ob = ObjectPrototype"
    by simp
  have u: "fmlookup (unionOf (removeAll ''Contact Information'' groupKeys) (Obj ?m))
             ''consumerContact'' = None"
    "fmlookup (unionOf (removeAll ''Contact Information'' groupKeys) (Obj ?m)) ''name''
       = Some (Str ''Tea'')"
    "fmlookup (unionOf (removeAll ''Contact Information'' groupKeys) (Obj ?m)) ''expiryDate''
       = Some (Str ''2025-12-01'')"
    by (simp_all add: groupKeys_def unionOf_def contribution_def merged_def pick_def
        pickLicense_def pickVegetarian_def)
  have l: "fmlookup (props ob) ''consumerContact'' = None"
    "fmlookup (props ob) ''name'' = Some (Str ''Tea'')"
    "fmlookup (props ob) ''expiryDate'' = Some (Str ''2025-12-01'')"
    using un [rule_format, of "''consumerContact''"] un [rule_format, of "''name''"]
      un [rule_format, of "''expiryDate''"] u
    by simp_all
  from rd [THEN conjunct2, THEN conjunct2, THEN mp, OF out]
  have r1: "flatGet (Built ob) ''consumerContact'' = Undefined" .
  from rd [THEN conjunct2, THEN conjunct1] out
  have r2: "\<not> flatHas (Built ob) ''consumerContact''"
    by (simp only: simp_thms)
  from ret pr l r1 r2 have "\<exists>ob. flattenNestedData (Obj ?m) = Inr (Built ob) \<and>
     proto ob = ObjectPrototype \<and>
     fmlookup (props ob) ''consumerContact'' = None \<and>
     fmlookup (props ob) ''name'' = Some (Str ''Tea'') \<and>
     fmlookup (props ob) ''expiryDate'' = Some (Str ''2025-12-01'') \<and>
     flatGet (Built ob) ''consumerContact'' = Undefined \<and>
     \<not> flatHas (Built ob) ''consumerContact''"
    by (intro exI [of _ ob] conjI)
  with g k a np show ?thesis by (intro conjI)
qed

text \<open>
  C7, as the claim states it, fails: \<^verbatim>\<open>Basic Information\<close> is a recognized group, and a key
  of it that holds the empty string is copied into the flat result, not omitted.
\<close>

theorem falsy_key_counterexample:
  "\<not> truthy (Str []) \<and>
   flattenNestedData
     (Obj (fmap_of_list
        [(''Basic Information'', Obj (fmap_of_list [(''manufacturer'', Str [])]))]))
   = Inr (Built \<lparr>proto = ObjectPrototype,
                  props = fmap_of_list [(''manufacturer'', Str [])]\<rparr>)"
  by (simp add: flattenNestedData_def alreadyFlat_def mergeGroup_def liftIngredients_def
      liftManufacturing_def liftContact_def liftOther_def objectAssign_def emptyObject_def
      fmdrop_fmupd)

text \<open>
  C7, amended. For every grouped object and every key with a falsy value inside one of the
  four groups whose fields are lifted by name (\<^verbatim>\<open>Ingredients & Nutrition\<close>,
  \<^verbatim>\<open>Manufacturing & Regulatory\<close>, \<^verbatim>\<open>Contact Information\<close>, \<^verbatim>\<open>Other Details\<close>),
  \<^verbatim>\<open>flattenNestedData\<close> treats the key as absent: its outcome is the outcome on the same
  object with the key removed from the group.
\<close>

theorem falsy_key_treated_as_absent:
  assumes grouped: "\<not> alreadyFlat (Obj m)"
    and G: "G \<in> set [''Ingredients & Nutrition'', ''Manufacturing & Regulatory'',
                       ''Contact Information'', ''Other Details'']"
    and group: "fmlookup m G = Some (Obj g)"
    and falsy: "\<not> truthy (getProp (Obj g) k)"
  shows "flattenNestedData (Obj (fmupd G (Obj (fmdrop k g)) m)) = flattenNestedData (Obj m)"
proof -
  define d where "d = Obj m"
  define d' where "d' = Obj (fmupd G (Obj (fmdrop k g)) m)"
  have G4: "G = ''Ingredients & Nutrition'' \<or> G = ''Manufacturing & Regulatory'' \<or>
            G = ''Contact Information'' \<or> G = ''Other Details''"
    using G by simp
  have at: "getProp d' G = Obj (fmdrop k g)" "getProp d G = Obj g"
    using group by (simp_all add: d_def d'_def)
  have other: "getProp d' K = getProp d K" if "K \<noteq> G" for K
    using that by (simp add: d_def d'_def)
  have ne: "''name'' \<noteq> G" "''company'' \<noteq> G" "''Basic Information'' \<noteq> G"
    "''Dates & Batch'' \<noteq> G"
    using G4 by auto
  have flat: "alreadyFlat d' = alreadyFlat d"
    by (simp only: alreadyFlat_def other [OF ne(1)] other [OF ne(2)] other [OF ne(3)]
        other [OF ne(4)])
  have mg: "mergeGroup ''Basic Information'' d' f = mergeGroup ''Basic Information'' d f"
    "mergeGroup ''Dates & Batch'' d' f = mergeGroup ''Dates & Batch'' d f" for f
    by (simp_all only: mergeGroup_def other [OF ne(3)] other [OF ne(4)])
  have con: "contribution K d' = contribution K d"
    if "K \<in> set [''Ingredients & Nutrition'', ''Manufacturing & Regulatory'',
                   ''Contact Information'', ''Other Details'']" for K
  proof (cases "K = G")
    case False
    then show ?thesis by (intro contribution_cong other)
  next
    case True
    from G4 show ?thesis unfolding True
    proof (elim disjE)
      assume g: "G = ''Ingredients & Nutrition''"
      show "contribution G d' = contribution G d"
        using at unfolding g by (simp only: contribution_simps pick_drop [OF falsy])
    next
      assume g: "G = ''Manufacturing & Regulatory''"
      show "contribution G d' = contribution G d"
        using at unfolding g
        by (simp only: contribution_simps pick_drop [OF falsy] pickLicense_drop [OF falsy]
            pickVegetarian_drop [OF falsy])
    next
      assume g: "G = ''Contact Information''"
      show "contribution G d' = contribution G d"
        using at unfolding g by (simp only: contribution_simps pick_drop [OF falsy])
    next
      assume g: "G = ''Other Details''"
      show "contribution G d' = contribution G d"
        using at unfolding g by (simp only: contribution_simps pick_drop [OF falsy])
    qed
  qed
  have mc: "manufacturingCoercible d' = manufacturingCoercible d"
  proof (cases "G = ''Manufacturing & Regulatory''")
    case False
    then have "getProp d' ''Manufacturing & Regulatory'' = getProp d ''Manufacturing & Regulatory''"
      by (intro other) simp
    then show ?thesis by (simp only: manufacturingCoercible_def)
  next
    case True
    show ?thesis
      using at unfolding True manufacturingCoercible_def Let_def
      by (simp only: coercible_drop [OF falsy])
  qed
  have "flattenNestedData d' = flattenNestedData d"
  proof -
    have g: "\<not> alreadyFlat d" "\<not> alreadyFlat d'"
      using grouped flat by (simp_all add: d_def)
    have o: "d \<noteq> Null" "d \<noteq> Undefined" "d' \<noteq> Null" "d' \<noteq> Undefined"
      by (simp_all add: d_def d'_def)
    show ?thesis
      unfolding flatten_alt [OF g(1) o(1,2)] flatten_alt [OF g(2) o(3,4)]
      by (simp only: mc mg con list.set insert_iff simp_thms)
  qed
  then show ?thesis by (simp only: d_def d'_def)
qed

theorem falsy_key_treated_as_absent_witness:
  "\<not> alreadyFlat
     (Obj (fmap_of_list
        [(''Basic Information'', Obj (fmap_of_list [(''name'', Str ''Tea'')])),
         (''Manufacturing & Regulatory'',
            Obj (fmap_of_list [(''fssaiLicense'', Str ''A1''), (''vegetarian'', Bool False)]))])) \<and>
   \<not> truthy (getProp
       (Obj (fmap_of_list [(''fssaiLicense'', Str ''A1''), (''vegetarian'', Bool False)]))
       ''vegetarian'') \<and>
   flattenNestedData
     (Obj (fmupd ''Manufacturing & Regulatory''
        (Obj (fmdrop ''vegetarian''
           (fmap_of_list [(''fssaiLicense'', Str ''A1''), (''vegetarian'', Bool False)])))
        (fmap_of_list
          [(''Basic Information'', Obj (fmap_of_list [(''name'', Str ''Tea'')])),
           (''Manufacturing & Regulatory'',
              Obj (fmap_of_list [(''fssaiLicense'', Str ''A1''), (''vegetarian'', Bool False)]))])))
   = flattenNestedData
     (Obj (fmap_of_list
        [(''Basic Information'', Obj (fmap_of_list [(''name'', Str ''Tea'')])),
         (''Manufacturing & Regulatory'',
            Obj (fmap_of_list [(''fssaiLicense'', Str ''A1''), (''vegetarian'', Bool False)]))]))"
proof -
  let ?g = "fmap_of_list [(''fssaiLicense'', Str ''A1''), (''vegetarian'', Bool False)]"
  let ?m = "fmap_of_list
        [(''Basic Information'', Obj (fmap_of_list [(''name'', Str ''Tea'')])),
         (''Manufacturing & Regulatory'', Obj ?g)]"
  have g: "\<not> alreadyFlat (Obj ?m)"
    by (simp add: alreadyFlat_def)
  have G: "''Manufacturing & Regulatory'' \<in>
           set [''Ingredients & Nutrition'', ''Manufacturing & Regulatory'',
                ''Contact Information'', ''Other Details'']"
    by simp
  have l: "fmlookup ?m ''Manufacturing & Regulatory'' = Some (Obj ?g)"
    by simp
  have f: "\<not> truthy (getProp (Obj ?g) ''vegetarian'')"
    by simp
  from g f falsy_key_treated_as_absent [OF g G l f] show ?thesis
    by (intro conjI)
qed

text \<open>
  C10, as the claim states it, fails: on a grouped object whose \<^verbatim>\<open>vegetarian\<close> value is an
  object with an own \<^verbatim>\<open>toString\<close> property, \<^verbatim>\<open>String\<close> throws a \<^verbatim>\<open>TypeError\<close>, and so does
  \<^verbatim>\<open>flattenNestedData\<close>.
\<close>

theorem flatten_total_counterexample:
  "flattenNestedData
     (Obj (fmap_of_list
        [(''Basic Information'', Obj (fmap_of_list [(''name'', Str ''Tea'')])),
         (''Manufacturing & Regulatory'',
            Obj (fmap_of_list
              [(''vegetarian'', Obj (fmap_of_list [(''toString'', Str ''x'')]))]))]))
   = Inl TypeError"
  by (simp add: flattenNestedData_def alreadyFlat_def mergeGroup_def liftIngredients_def
      liftManufacturing_def ToString_def objectAssign_def emptyObject_def)

text \<open>
  C10, amended. For every object, \<^verbatim>\<open>flattenNestedData\<close> returns an object whenever the input
  is classified as already flat or the truthy \<^verbatim>\<open>fssaiLicense\<close> and \<^verbatim>\<open>vegetarian\<close> values of
  its \<^verbatim>\<open>Manufacturing & Regulatory\<close> group can be coerced to strings; otherwise it throws
  a \<^verbatim>\<open>TypeError\<close>. In particular it returns whenever the value under
  \<^verbatim>\<open>Manufacturing & Regulatory\<close> is not an object (a primitive, \<^verbatim>\<open>null\<close>, an array or nothing),
  whatever the other group keys hold.
\<close>

theorem flatten_raises_only_on_coercion:
  "(alreadyFlat (Obj m) \<or> manufacturingCoercible (Obj m) \<longrightarrow>
      (\<exists>r. flattenNestedData (Obj m) = Inr r)) \<and>
   (\<not> alreadyFlat (Obj m) \<and> \<not> manufacturingCoercible (Obj m) \<longrightarrow>
      flattenNestedData (Obj m) = Inl TypeError) \<and>
   ((\<forall>g. getProp (Obj m) ''Manufacturing & Regulatory'' \<noteq> Obj g) \<longrightarrow>
      (\<exists>r. flattenNestedData (Obj m) = Inr r))"
proof -
  have "Obj m \<noteq> Null" and "Obj m \<noteq> Undefined" by simp_all
  from raises_gen [OF this] show ?thesis .
qed

theorem flatten_raises_only_on_coercion_witness:
  "(\<forall>g. getProp
      (Obj (fmap_of_list
        [(''Basic Information'', Str ''abc''), (''Dates & Batch'', Null),
         (''Ingredients & Nutrition'', Num ''5''),
         (''Manufacturing & Regulatory'', Arr [Bool True]),
         (''Contact Information'', Null), (''Other Details'', Bool False)]))
      ''Manufacturing & Regulatory'' \<noteq> Obj g) \<and>
   (\<exists>r. flattenNestedData
      (Obj (fmap_of_list
        [(''Basic Information'', Str ''abc''), (''Dates & Batch'', Null),
         (''Ingredients & Nutrition'', Num ''5''),
         (''Manufacturing & Regulatory'', Arr [Bool True]),
         (''Contact Information'', Null), (''Other Details'', Bool False)])) = Inr r)"
  using flatten_raises_only_on_coercion
    [of "fmap_of_list
        [(''Basic Information'', Str ''abc''), (''Dates & Batch'', Null),
         (''Ingredients & Nutrition'', Num ''5''),
         (''Manufacturing & Regulatory'', Arr [Bool True]),
         (''Contact Information'', Null), (''Other Details'', Bool False)]"]
  by simp

section \<open>Auxiliary facts about the validator and the entry points\<close>

lemma dom_keep:
  "\<exists>m. keep present ks vals = Obj m \<and> fmdom m |\<subseteq>| fset_of_list ks"
proof -
  let ?xs = "filter (\<lambda>(k, v). v \<noteq> Undefined \<or> present k) (zip ks vals)"
  have "fmdom (fmap_of_list ?xs) |\<subseteq>| fset_of_list ks"
    by (auto simp: fset_of_list.rep_eq dest: set_zip_leftD)
  then show ?thesis unfolding keep_def by (intro exI conjI) (rule refl)
qed

lemma safeParse_dom:
  assumes "safeParse input = Some r"
  shows "\<exists>m. r = Obj m \<and> fmdom m |\<subseteq>| fset_of_list canonicalFields"
  using assms dom_keep [of "flatHas input" canonicalFields]
  by (auto simp: safeParse_def split: if_splits option.splits)

lemma bestEffort_dom:
  "\<exists>m. bestEffort flat = Obj m \<and> fmdom m = fset_of_list canonicalFields"
  by (simp add: bestEffort_def canonicalFields_def ProductSchema_def)

lemma emptyRecord_dom:
  "\<exists>m. emptyRecord = Obj m \<and> fmdom m = fset_of_list canonicalFields"
  by (simp add: emptyRecord_def canonicalFields_def ProductSchema_def)

lemma validateRecord_dom:
  "\<exists>m. validateRecord flat = Obj m \<and> fmdom m |\<subseteq>| fset_of_list canonicalFields"
proof (cases "safeParse flat")
  case None
  then have "validateRecord flat = bestEffort flat" by (simp add: validateRecord_def)
  with bestEffort_dom [of flat] show ?thesis by auto
next
  case (Some r)
  then have "validateRecord flat = r" by (simp add: validateRecord_def)
  with safeParse_dom [OF Some] show ?thesis by simp
qed

lemma attempt_dom:
  assumes "attempt gateway decode key req = Inr r"
  shows "\<exists>m. r = Obj m \<and> fmdom m |\<subseteq>| fset_of_list canonicalFields"
proof -
  from assms obtain flat where "r = validateRecord flat"
    by (auto simp: attempt_def readCompletion_def split: sum.splits option.splits if_splits)
  with validateRecord_dom [of flat] show ?thesis by simp
qed

lemma outcome_dom:
  assumes "(case attempt gateway decode key req of Inl e \<Rightarrow> Inr emptyRecord | Inr x \<Rightarrow> Inr x)
           = (Inr r :: error + jsval)"
  shows "\<exists>m. r = Obj m \<and> fmdom m |\<subseteq>| fset_of_list canonicalFields"
proof (cases "attempt gateway decode key req")
  case (Inl e)
  with assms have "r = emptyRecord" by simp
  with emptyRecord_dom show ?thesis by auto
next
  case (Inr x)
  with assms have "r = x" by simp
  with attempt_dom [OF Inr] show ?thesis by simp
qed

lemma with_credential_never_throws:
  assumes "key \<noteq> []"
  shows "\<exists>r. snd (parseProductText gateway decode ocrText (Some key)) = Inr r"
  using assms by (simp add: parseProductText_def split: sum.splits)

lemma emptyRecord_canonical:
  "emptyRecord = Obj (fmap_of_list (map (\<lambda>k. (k, Undefined)) canonicalFields))"
  by (simp add: emptyRecord_def canonicalFields_def ProductSchema_def)

lemma endpoint_with_credential:
  assumes "text \<noteq> []" "length (trim text) > 0" "key \<noteq> []"
  shows "\<exists>r. scanEndpoint gateway decode (Some text) (Some key)
              = Some \<lparr>success = True, responseData = r, advisory = None, errorCode = None\<rparr>"
proof -
  from with_credential_never_throws [OF assms(3), of gateway decode "text"] obtain r where
    "snd (parseProductText gateway decode text (Some key)) = Inr r" by (elim exE)
  then show ?thesis using assms by (simp add: scanEndpoint_def scanText_def)
qed

section \<open>Properties of the parser entry points\<close>

text \<open>
  C1. With a credential, whenever a stage inside the \<^verbatim>\<open>try\<close> block of \<^verbatim>\<open>parseProductText\<close>
  throws (the gateway call, the reading of the content, the decoding of the JSON text, or
  the flattening), the function does not throw: after the one request to the gateway it
  returns the object that has exactly the canonical field names as its keys, each of them
  holding \<^verbatim>\<open>undefined\<close>.
\<close>

theorem parseProductText_failure_gives_empty_record:
  assumes key: "key \<noteq> []"
    and fails:
      "(\<exists>e. gateway key (TextRequest ocrText) = Inl e) \<or>
       (\<exists>response. gateway key (TextRequest ocrText) = Inr response \<and>
          (firstContent response = None \<or> firstContent response = Some [])) \<or>
       (\<exists>response text e. gateway key (TextRequest ocrText) = Inr response \<and>
          firstContent response = Some text \<and> decode text = Inl e) \<or>
       (\<exists>response text parsed e. gateway key (TextRequest ocrText) = Inr response \<and>
          firstContent response = Some text \<and> decode text = Inr parsed \<and>
          flattenNestedData parsed = Inl e)"
  shows "parseProductText gateway decode ocrText (Some key)
           = ([TextRequest ocrText],
              Inr (Obj (fmap_of_list (map (\<lambda>k. (k, Undefined)) canonicalFields))))"
proof -
  have "\<exists>e. attempt gateway decode key (TextRequest ocrText) = Inl e"
    using fails
    by (auto simp: attempt_def readCompletion_def)
  then have "parseProductText gateway decode ocrText (Some key)
           = ([TextRequest ocrText], Inr emptyRecord)"
    using key by (auto simp: parseProductText_def)
  then show ?thesis unfolding emptyRecord_canonical .
qed

theorem parseProductText_failure_gives_empty_record_witness:
  "''key'' \<noteq> [] \<and>
   failingGateway (ApiError (Some 500) None) ''key'' (TextRequest ''Tea 100g'')
     = Inl (ApiError (Some 500) None) \<and>
   parseProductText (failingGateway (ApiError (Some 500) None))
       (decoderOf ''null'' Null) ''Tea 100g'' (Some ''key'')
     = ([TextRequest ''Tea 100g''],
        Inr (Obj (fmap_of_list
          [(''name'', Undefined), (''company'', Undefined), (''manufacturer'', Undefined),
           (''ingredients'', Undefined), (''expiryDate'', Undefined), (''bestBefore'', Undefined),
           (''mrp'', Undefined), (''price'', Undefined), (''netWeight'', Undefined),
           (''batchNumber'', Undefined), (''manufacturingDate'', Undefined),
           (''barcode'', Undefined), (''nutritionalInfo'', Undefined),
           (''manufacturingAddresses'', Undefined), (''fssaiLicense'', Undefined),
           (''consumerContact'', Undefined), (''vegetarian'', Undefined),
           (''trademark'', Undefined), (''otherDetails'', Undefined)]))) \<and>
   flattenNestedData Null = Inl TypeError \<and>
   parseProductText (answeringGateway ''null'') (decoderOf ''null'' Null) ''Tea 100g''
       (Some ''key'')
     = ([TextRequest ''Tea 100g''],
        Inr (Obj (fmap_of_list
          [(''name'', Undefined), (''company'', Undefined), (''manufacturer'', Undefined),
           (''ingredients'', Undefined), (''expiryDate'', Undefined), (''bestBefore'', Undefined),
           (''mrp'', Undefined), (''price'', Undefined), (''netWeight'', Undefined),
           (''batchNumber'', Undefined), (''manufacturingDate'', Undefined),
           (''barcode'', Undefined), (''nutritionalInfo'', Undefined),
           (''manufacturingAddresses'', Undefined), (''fssaiLicense'', Undefined),
           (''consumerContact'', Undefined), (''vegetarian'', Undefined),
           (''trademark'', Undefined), (''otherDetails'', Undefined)])))"
  using parseProductText_failure_gives_empty_record
      [of "''key''" "failingGateway (ApiError (Some 500) None)" "''Tea 100g''"
          "decoderOf ''null'' Null"]
    parseProductText_failure_gives_empty_record
      [of "''key''" "answeringGateway ''null''" "''Tea 100g''" "decoderOf ''null'' Null"]
  by (simp add: failingGateway_def answeringGateway_def decoderOf_def firstContent_def
      flattenNestedData_def canonicalFields_def ProductSchema_def)

text \<open>
  C2, as the claim states it, fails: on the flat object whose \<^verbatim>\<open>ingredients\<close> is a single
  string, strict validation fails and the best-effort record holds that string under
  \<^verbatim>\<open>ingredients\<close>; the field does not fall back to \<^verbatim>\<open>undefined\<close>.
\<close>

theorem best_effort_counterexample:
  "safeParse
     (Given (Obj (fmap_of_list
        [(''name'', Str ''Choco Bar''), (''ingredients'', Str ''Sugar'')]))) = None \<and>
   getProp
     (validateRecord
        (Given (Obj (fmap_of_list
           [(''name'', Str ''Choco Bar''), (''ingredients'', Str ''Sugar'')]))))
     ''ingredients'' = Str ''Sugar''"
  by (simp add: validateRecord_def safeParse_def ProductSchema_def bestEffort_def
      orUndefined_def)

text \<open>
  C2, amended. For every flat object on which strict validation fails, the validator
  returns the best-effort record, an object with exactly the canonical field names. Each
  field written with \<^verbatim>\<open>?? undefined\<close> holds the value read from the flat object, whatever
  its type, when that value is neither \<^verbatim>\<open>null\<close> nor \<^verbatim>\<open>undefined\<close>, and \<^verbatim>\<open>undefined\<close>
  otherwise; \<^verbatim>\<open>nutritionalInfo\<close> and \<^verbatim>\<open>consumerContact\<close> hold the value read when it is not
  \<^verbatim>\<open>null\<close>. So every validly typed field is preserved, and a malformed field is passed on
  as it is.
\<close>

theorem best_effort_copies_fields:
  assumes "safeParse flat = None"
  shows "validateRecord flat = bestEffort flat \<and>
         (\<exists>m. bestEffort flat = Obj m \<and> fmdom m = fset_of_list canonicalFields) \<and>
         (\<forall>k \<in> set coalescedFields. getProp (bestEffort flat) k = orUndefined (flatGet flat k)) \<and>
         (\<forall>k \<in> set copiedFields.
            flatGet flat k \<noteq> Null \<longrightarrow> getProp (bestEffort flat) k = flatGet flat k)"
proof (intro conjI)
  show "validateRecord flat = bestEffort flat"
    using assms by (simp add: validateRecord_def)
  show "\<exists>m. bestEffort flat = Obj m \<and> fmdom m = fset_of_list canonicalFields"
    by (rule bestEffort_dom)
  show "\<forall>k \<in> set coalescedFields. getProp (bestEffort flat) k = orUndefined (flatGet flat k)"
    by (simp add: coalescedFields_def bestEffort_def)
  show "\<forall>k \<in> set copiedFields.
          flatGet flat k \<noteq> Null \<longrightarrow> getProp (bestEffort flat) k = flatGet flat k"
    by (simp add: copiedFields_def bestEffort_def)
qed

theorem best_effort_copies_fields_witness:
  "safeParse
     (Given (Obj (fmap_of_list
        [(''name'', Str ''Choco Bar''), (''mrp'', Null), (''ingredients'', Str ''Sugar'')])))
     = None \<and>
   getProp
     (validateRecord
        (Given (Obj (fmap_of_list
           [(''name'', Str ''Choco Bar''), (''mrp'', Null), (''ingredients'', Str ''Sugar'')]))))
     ''name'' = Str ''Choco Bar'' \<and>
   getProp
     (validateRecord
        (Given (Obj (fmap_of_list
           [(''name'', Str ''Choco Bar''), (''mrp'', Null), (''ingredients'', Str ''Sugar'')]))))
     ''mrp'' = Undefined"
proof -
  let ?flat = "Given (Obj (fmap_of_list
           [(''name'', Str ''Choco Bar''), (''mrp'', Null), (''ingredients'', Str ''Sugar'')]))"
  have f: "safeParse ?flat = None"
    by (simp add: safeParse_def ProductSchema_def)
  note w = best_effort_copies_fields [OF f]
  note v = w [THEN conjunct1]
  note c = w [THEN conjunct2, THEN conjunct2, THEN conjunct1]
  have n: "''name'' \<in> set coalescedFields" and p: "''mrp'' \<in> set coalescedFields"
    by (simp_all add: coalescedFields_def)
  have "getProp (bestEffort ?flat) ''name'' = Str ''Choco Bar''"
    using c [rule_format, OF n] by (simp add: orUndefined_def)
  moreover have "getProp (bestEffort ?flat) ''mrp'' = Undefined"
    using c [rule_format, OF p] by (simp add: orUndefined_def)
  ultimately show ?thesis
    unfolding v using f by (intro conjI)
qed

text \<open>
  C5, as the claim states it, fails: called without a credential, \<^verbatim>\<open>parseProductText\<close> does
  not raise the configuration error synchronously. The call returns a promise, and the
  error is the rejection of that promise.
\<close>

theorem missing_credential_counterexample:
  "asyncCall (snd (parseProductText (answeringGateway ''null'') (decoderOf ''null'' Null)
                     ''Tea 100g'' None))
     = Returned (Rejected (Error ''OpenRouter API key is required'')) \<and>
   asyncCall (snd (parseProductText (answeringGateway ''null'') (decoderOf ''null'' Null)
                     ''Tea 100g'' None))
     \<noteq> Thrown (Error ''OpenRouter API key is required'')"
  by (simp add: asyncCall_def parseProductText_def)

text \<open>
  C5, amended. When the credential is absent (\<^verbatim>\<open>undefined\<close> or the empty string),
  \<^verbatim>\<open>parseProductText\<close> and \<^verbatim>\<open>parseProductImage\<close> raise the configuration error before any
  network call: no request is sent to the gateway. The call itself does not throw; the
  error is delivered as the rejection of the promise that the call returns.
\<close>

theorem missing_credential_rejects_before_gateway:
  assumes "apiKey = None \<or> apiKey = Some []"
  shows "fst (parseProductText gateway decode ocrText apiKey) = [] \<and>
         asyncCall (snd (parseProductText gateway decode ocrText apiKey))
           = Returned (Rejected (Error ''OpenRouter API key is required'')) \<and>
         fst (parseProductImage gateway decode imageBase64 mimeType apiKey) = [] \<and>
         asyncCall (snd (parseProductImage gateway decode imageBase64 mimeType apiKey))
           = Returned (Rejected (Error ''OpenRouter API key is required''))"
  using assms by (auto simp: parseProductText_def parseProductImage_def asyncCall_def)

theorem missing_credential_rejects_before_gateway_witness:
  "fst (parseProductText (answeringGateway ''null'') (decoderOf ''null'' Null) ''Tea 100g'' None)
     = [] \<and>
   asyncCall (snd (parseProductText (answeringGateway ''null'') (decoderOf ''null'' Null)
                     ''Tea 100g'' None))
     = Returned (Rejected (Error ''OpenRouter API key is required'')) \<and>
   fst (parseProductImage (answeringGateway ''null'') (decoderOf ''null'' Null) ''aGVsbG8=''
          ''image/png'' (Some []))
     = [] \<and>
   asyncCall (snd (parseProductImage (answeringGateway ''null'') (decoderOf ''null'' Null)
                     ''aGVsbG8='' ''image/png'' (Some [])))
     = Returned (Rejected (Error ''OpenRouter API key is required''))"
  using missing_credential_rejects_before_gateway
      [of None "answeringGateway ''null''" "decoderOf ''null'' Null" "''Tea 100g''"
          "''aGVsbG8=''" "''image/png''"]
    missing_credential_rejects_before_gateway
      [of "Some []" "answeringGateway ''null''" "decoderOf ''null'' Null" "''Tea 100g''"
          "''aGVsbG8=''" "''image/png''"]
  by simp

text \<open>
  C9. Every record that \<^verbatim>\<open>parseProductText\<close> or \<^verbatim>\<open>parseProductImage\<close> returns, whether it comes
  from strict validation, from the best-effort literal or from the \<^verbatim>\<open>catch\<close> block, is an
  object whose keys are canonical field names: no other top-level key of the model output
  appears in it.
\<close>

theorem result_has_only_canonical_fields:
  "(snd (parseProductText gateway decode ocrText apiKey) = Inr r \<longrightarrow>
      (\<exists>m. r = Obj m \<and> fmdom m |\<subseteq>| fset_of_list canonicalFields)) \<and>
   (snd (parseProductImage gateway decode imageBase64 mimeType apiKey) = Inr r \<longrightarrow>
      (\<exists>m. r = Obj m \<and> fmdom m |\<subseteq>| fset_of_list canonicalFields))"
proof (intro conjI impI)
  assume "snd (parseProductText gateway decode ocrText apiKey) = Inr r"
  then obtain key where
    "(case attempt gateway decode key (TextRequest ocrText) of
        Inl e \<Rightarrow> Inr emptyRecord | Inr x \<Rightarrow> Inr x) = (Inr r :: error + jsval)"
    by (auto simp: parseProductText_def split: option.splits if_splits)
  then show "\<exists>m. r = Obj m \<and> fmdom m |\<subseteq>| fset_of_list canonicalFields"
    by (rule outcome_dom)
next
  assume "snd (parseProductImage gateway decode imageBase64 mimeType apiKey) = Inr r"
  then obtain key where
    "(case attempt gateway decode key (ImageRequest mimeType imageBase64) of
        Inl e \<Rightarrow> Inr emptyRecord | Inr x \<Rightarrow> Inr x) = (Inr r :: error + jsval)"
    by (auto simp: parseProductImage_def split: option.splits if_splits)
  then show "\<exists>m. r = Obj m \<and> fmdom m |\<subseteq>| fset_of_list canonicalFields"
    by (rule outcome_dom)
qed

theorem result_has_only_canonical_fields_witness:
  "snd (parseProductText (answeringGateway ''T'')
          (decoderOf ''T''
             (Obj (fmap_of_list
                [(''name'', Str ''Choco Bar''), (''brandStory'', Str ''since 1990'')])))
          ''Tea 100g'' (Some ''key''))
     = Inr (Obj (fmap_of_list [(''name'', Str ''Choco Bar'')])) \<and>
   (\<exists>m. Obj (fmap_of_list [(''name'', Str ''Choco Bar'')]) = Obj m \<and>
        fmdom m |\<subseteq>| fset_of_list canonicalFields)"
proof -
  let ?g = "answeringGateway ''T''"
  let ?d = "decoderOf ''T''
             (Obj (fmap_of_list
                [(''name'', Str ''Choco Bar''), (''brandStory'', Str ''since 1990'')]))"
  have r: "snd (parseProductText ?g ?d ''Tea 100g'' (Some ''key''))
             = Inr (Obj (fmap_of_list [(''name'', Str ''Choco Bar'')]))"
    by (simp add: parseProductText_def attempt_def answeringGateway_def decoderOf_def
        readCompletion_def firstContent_def flattenNestedData_def alreadyFlat_def
        validateRecord_def safeParse_def ProductSchema_def canonicalFields_def keep_def)
  from result_has_only_canonical_fields
      [of ?g ?d "''Tea 100g''" "Some ''key''"
          "Obj (fmap_of_list [(''name'', Str ''Choco Bar'')])", THEN conjunct1, THEN mp, OF r]
  have "\<exists>m. Obj (fmap_of_list [(''name'', Str ''Choco Bar'')]) = Obj m \<and>
        fmdom m |\<subseteq>| fset_of_list canonicalFields" .
  with r show ?thesis by (intro conjI)
qed

section \<open>Properties of the scan endpoint\<close>





end
